theory Spec2Isabelle
  imports Complex_Main
begin

section \<open>Python values used by wrcalibration.py\<close>

text \<open>
  A Python float is modelled by the real number it denotes. Comparison, negation
  (\<^verbatim>\<open>x * -1\<close>) and \<^verbatim>\<open>abs\<close> are exact on floats. A sum, difference, product or
  quotient of two floats is the float that binary64 rounding gives, which in general
  is not the exact result: the four operations are parameters of the model, held in
  the record \<open>arith\<close> that every function computing with floats takes as its
  first argument \<open>fa\<close>. A division is only asked of \<open>fdiv\<close> when the divisor is not zero;
  Python raises \<^verbatim>\<open>ZeroDivisionError\<close> otherwise. Results that are not finite are
  outside the model.
\<close>

record arith =
  fadd :: "real \<Rightarrow> real \<Rightarrow> real"
  fsub :: "real \<Rightarrow> real \<Rightarrow> real"
  fmul :: "real \<Rightarrow> real \<Rightarrow> real"
  fdiv :: "real \<Rightarrow> real \<Rightarrow> real"

text \<open>
  The literals \<^verbatim>\<open>1e10\<close>, \<^verbatim>\<open>1e12\<close>, \<^verbatim>\<open>0.5\<close>, \<^verbatim>\<open>2\<close> and \<^verbatim>\<open>pow(2,40)\<close> denote
  the floats \<open>10000000000\<close>, \<open>1000000000000\<close>, \<open>0.5\<close>, \<open>2\<close> and \<open>2 ^ 40\<close>. The literal
  \<^verbatim>\<open>1e-6\<close> denotes the float nearest to one millionth, which is slightly smaller:
  \<open>4722366482869645 / 2 ^ 72\<close>.
\<close>

definition micro :: real where
  "micro = 4722366482869645 / 2 ^ 72"

datatype error =
    WRDeviceNeeded
  | MeasurementInstrumentNeeded
  | FiberLatencyNeeded
  | FiberAsymmetryNeeded
  | MeasuringError
  | DeviceNotFound
  | IndexError
  | ValueError
  | ZeroDivisionError
  | UnboundLocalError

text \<open>The decimal digits of \<^verbatim>\<open>"%d" % n\<close> for an integer.\<close>

definition digit_char :: "nat \<Rightarrow> char" where
  "digit_char n = ''0123456789'' ! n"

function str_nat :: "nat \<Rightarrow> string" where
  "str_nat n = (if n < 10 then [digit_char n] else str_nat (n div 10) @ [digit_char (n mod 10)])"
  by pat_completeness auto
termination
  by (relation "measure (\<lambda>n. n)") auto

declare str_nat.simps [simp del]

definition str_int :: "int \<Rightarrow> string" where
  "str_int i = (if i < 0 then CHR ''-'' # str_nat (nat (- i)) else str_nat (nat i))"

text \<open>
  A Python dict keeps its keys in insertion order; assigning to a key that is present
  replaces the value in place, assigning to a new key appends it.
\<close>

fun dict_set :: "'k \<Rightarrow> 'v \<Rightarrow> ('k \<times> 'v) list \<Rightarrow> ('k \<times> 'v) list" where
  "dict_set k v [] = [(k, v)]"
| "dict_set k v (p # d) = (if fst p = k then (k, v) # d else p # dict_set k v d)"

section \<open>Session state and the external collaborators\<close>

text \<open>
  \<open>cfg_dict\<close> holds the three blocks of the calibration record; \<open>devices\<close> is the
  number of attached device handles (\<^verbatim>\<open>len(self.devices)\<close>, the handles themselves are
  opaque) and \<open>instr\<close> says whether \<^verbatim>\<open>self.instr\<close> is not \<^verbatim>\<open>None\<close>.
\<close>

record session =
  cfg_delta1 :: real
  cfg_delta2 :: real
  cfg_fiber_asymmetry :: "(string \<times> real) list"
  cfg_port_delay :: "(string \<times> (real \<times> real)) list"
  devices :: nat
  instr :: bool
  show_dbg :: bool

text \<open>
  Every call made on a device handle (identified by its index in \<^verbatim>\<open>self.devices\<close>) or
  on the measurement instrument. \<^verbatim>\<open>write_sfp_config\<close> is called either with two
  arguments or with the delays and the asymmetry as well.
\<close>

datatype cmd =
    Erase_sfp_config nat
  | Write_sfp_config nat string int "(real \<times> real \<times> real) option"
  | Load_sfp_config nat
  | Set_slaveport nat int
  | Set_master nat
  | In_trackphase nat
  | Get_rtt nat
  | Get_phy_delays nat
  | Mean_time_interval int int

text \<open>
  The drivers are not part of the source. The world records the commands issued so far
  (oldest first) and holds the answers the drivers will give, in the order in which they
  are asked for. A run that asks for an answer the world does not hold has no result
  (\<open>None\<close>); in particular a device that never reports track phase leaves the polling
  loop without a result. Console output, the operator prompts and the sleeps between
  polls have no effect on the state and are left out.
\<close>

record world =
  issued :: "cmd list"
  trackphase_ans :: "bool list"
  rtt_ans :: "real list"
  phy_ans :: "((real \<times> real) \<times> (real \<times> real)) list"
  interval_ans :: "real list"

definition issue :: "cmd \<Rightarrow> world \<Rightarrow> world" where
  "issue c w = w\<lparr>issued := issued w @ [c]\<rparr>"

text \<open>\<^verbatim>\<open>while not slave.in_trackphase() : time.sleep(2)\<close>\<close>

fun poll_trackphase :: "nat \<Rightarrow> bool list \<Rightarrow> cmd list \<Rightarrow> (bool list \<times> cmd list) option" where
  "poll_trackphase d [] tr = None"
| "poll_trackphase d (b # bs) tr =
     (if b then Some (bs, tr @ [In_trackphase d])
      else poll_trackphase d bs (tr @ [In_trackphase d]))"

definition wait_trackphase :: "nat \<Rightarrow> world \<Rightarrow> world option" where
  "wait_trackphase d w =
     (case poll_trackphase d (trackphase_ans w) (issued w) of
        None \<Rightarrow> None
      | Some (bs, tr) \<Rightarrow> Some (w\<lparr>issued := tr, trackphase_ans := bs\<rparr>))"

text \<open>\<^verbatim>\<open>self.instr.mean_time_interval(n_samples, t_samples)\<close>\<close>

definition mean_time_interval :: "int \<Rightarrow> int \<Rightarrow> world \<Rightarrow> (real \<times> world) option" where
  "mean_time_interval n t w =
     (case interval_ans w of
        [] \<Rightarrow> None
      | x # xs \<Rightarrow> Some (x, w\<lparr>issued := issued w @ [Mean_time_interval n t], interval_ans := xs\<rparr>))"

text \<open>
  \<^verbatim>\<open>for i in range(n_samples) : rtt = slave.get_rtt(); mean_rtt += rtt; time.sleep(t_samples)\<close>.
  \<^verbatim>\<open>time.sleep\<close> raises \<^verbatim>\<open>ValueError\<close> on a negative length.
\<close>

fun sample_rtt ::
  "arith \<Rightarrow> nat \<Rightarrow> nat \<Rightarrow> int \<Rightarrow> real \<Rightarrow> world \<Rightarrow> ((error + real) \<times> world) option" where
  "sample_rtt fa d 0 t mean_rtt w = Some (Inr mean_rtt, w)"
| "sample_rtt fa d (Suc k) t mean_rtt w =
     (case rtt_ans w of
        [] \<Rightarrow> None
      | rtt # rs \<Rightarrow>
          (let w' = w\<lparr>issued := issued w @ [Get_rtt d], rtt_ans := rs\<rparr>
           in if t < 0 then Some (Inl ValueError, w')
              else sample_rtt fa d k t (fadd fa mean_rtt rtt) w'))"

definition get_phy_delays :: "nat \<Rightarrow> world \<Rightarrow> (((real \<times> real) \<times> (real \<times> real)) \<times> world) option" where
  "get_phy_delays d w =
     (case phy_ans w of
        [] \<Rightarrow> None
      | p # ps \<Rightarrow> Some (p, w\<lparr>issued := issued w @ [Get_phy_delays d], phy_ans := ps\<rparr>))"

text \<open>\<^verbatim>\<open>"%s-wr%d" % (sfp, port)\<close>\<close>

definition port_key :: "string \<Rightarrow> int \<Rightarrow> string" where
  "port_key sfp port = sfp @ ''-wr'' @ str_int port"

type_synonym outcome = "((error + unit) \<times> session \<times> world) option"

section \<open>fiber\_asymmetry\<close>

definition fibers :: "string list" where
  "fibers = [''f1'', ''f2'', ''f1+f2'']"

text \<open>One pass of the measuring loop body, lines 462 to 476: the slave is device 1.\<close>

definition measure_skew :: "int \<Rightarrow> int \<Rightarrow> string \<Rightarrow> world \<Rightarrow> ((error + real) \<times> world) option" where
  "measure_skew n_samples t_samples sfp w =
     (case wait_trackphase 1 w of
        None \<Rightarrow> None
      | Some w1 \<Rightarrow>
          (case mean_time_interval n_samples t_samples w1 of
             None \<Rightarrow> None
           | Some (m, w2) \<Rightarrow>
               (let mean_skew = (if sfp = ''blue'' then m * (- 1) else m)
                in if mean_skew \<ge> micro then Some (Inl MeasuringError, w2)
                   else Some (Inr mean_skew, w2))))"

fun measure_fibers ::
  "int \<Rightarrow> int \<Rightarrow> string \<Rightarrow> string list \<Rightarrow> real list \<Rightarrow> world \<Rightarrow> ((error + real list) \<times> world) option" where
  "measure_fibers n_samples t_samples sfp [] skew w = Some (Inr skew, w)"
| "measure_fibers n_samples t_samples sfp (fiber # fs) skew w =
     (if fiber = ''f1+f2'' then measure_fibers n_samples t_samples sfp fs skew w
      else
        (case measure_skew n_samples t_samples sfp w of
           None \<Rightarrow> None
         | Some (Inl e, w') \<Rightarrow> Some (Inl e, w')
         | Some (Inr mean_skew, w') \<Rightarrow>
             measure_fibers n_samples t_samples sfp fs (skew @ [mean_skew]) w'))"

text \<open>Lines 478 to 494; a float division by zero raises \<^verbatim>\<open>ZeroDivisionError\<close>.\<close>

definition asymmetry_of :: "arith \<Rightarrow> string \<Rightarrow> real \<Rightarrow> real \<Rightarrow> real \<Rightarrow> error + real" where
  "asymmetry_of fa sfp delta_2 s0 s1 =
     (let skew0 = fmul fa s0 1000000000000;
          skew1 = fmul fa s1 1000000000000;
          dif = fsub fa skew1 skew0;
          divisor = fsub fa (fmul fa 0.5 delta_2) dif
      in if divisor = 0 then Inl ZeroDivisionError
         else
           (let alpha = fdiv fa (fmul fa 2 dif) divisor;
                divisor' = fadd fa alpha 2
            in if divisor' = 0 then Inl ZeroDivisionError
               else
                 (let alpha_n = fmul fa (2 ^ 40) (fsub fa (fdiv fa (fadd fa alpha 1) divisor') 0.5)
                  in Inr (if sfp = ''violet'' then alpha_n * (- 1) else alpha_n))))"

definition fiber_asymmetry ::
  "arith \<Rightarrow> int \<Rightarrow> int \<Rightarrow> int \<Rightarrow> string \<Rightarrow> session \<Rightarrow> world \<Rightarrow> outcome" where
  "fiber_asymmetry fa n_samples t_samples port sfp s w =
     (if devices s < 2 then Some (Inl WRDeviceNeeded, s, w)
      else if \<not> instr s then Some (Inl MeasurementInstrumentNeeded, s, w)
      else if cfg_delta1 s = 0 then Some (Inl FiberLatencyNeeded, s, w)
      else
        (let master = 0; slave = 1;
             w1 = issue (Erase_sfp_config slave) (issue (Erase_sfp_config master) w);
             sfp_sn1 = (if sfp = ''blue'' then ''AXGE-1254-0531'' else ''AXGE-3454-0531'');
             sfp_sn2 = (if sfp = ''blue'' then ''AXGE-3454-0531'' else ''AXGE-1254-0531'');
             w2 = issue (Write_sfp_config slave sfp_sn1 port None) w1;
             w3 = issue (Write_sfp_config master sfp_sn2 port None) w2;
             w4 = issue (Load_sfp_config master) w3;
             w5 = issue (Load_sfp_config slave) w4;
             w6 = issue (Set_slaveport slave port) w5;
             w7 = issue (Set_master master) w6
         in case measure_fibers n_samples t_samples sfp fibers [] w7 of
              None \<Rightarrow> None
            | Some (Inl e, w8) \<Rightarrow> Some (Inl e, s, w8)
            | Some (Inr skew, w8) \<Rightarrow>
                (case skew of
                   [s0, s1] \<Rightarrow>
                     (case asymmetry_of fa sfp (cfg_delta2 s) s0 s1 of
                        Inl e \<Rightarrow> Some (Inl e, s, w8)
                      | Inr alpha_n \<Rightarrow>
                          Some (Inr (),
                                s\<lparr>cfg_fiber_asymmetry :=
                                     dict_set (port_key sfp port) alpha_n (cfg_fiber_asymmetry s)\<rparr>,
                                w8))
                 | _ \<Rightarrow> Some (Inl IndexError, s, w8))))"

section \<open>calibrate\_device\_port\<close>

definition times :: nat where
  "times = 10"

text \<open>
  The refinement loop, lines 605 to 631. \<open>dl\<close> holds the local variables \<^verbatim>\<open>dtxs\<close> and
  \<^verbatim>\<open>drxs\<close>, which are unbound until the first pass of the body. The result is the final
  \<^verbatim>\<open>i\<close>, \<^verbatim>\<open>mean_skew\<close>, \<open>dl\<close> and world.
\<close>

function refine ::
  "arith \<Rightarrow> real \<Rightarrow> int \<Rightarrow> int \<Rightarrow> string \<Rightarrow> int \<Rightarrow> real \<Rightarrow> nat \<Rightarrow> real \<Rightarrow> real \<Rightarrow> real
     \<Rightarrow> (real \<times> real) option \<Rightarrow> world \<Rightarrow> (nat \<times> real \<times> (real \<times> real) option \<times> world) option" where
  "refine fa err n_samples t_samples sfp_sn port beta i mean_skew old_dtxs old_drxs dl w =
     (if \<bar>mean_skew\<bar> > err \<and> i < times then
        (case wait_trackphase 0 w of
           None \<Rightarrow> None
         | Some w1 \<Rightarrow>
             (case mean_time_interval n_samples t_samples w1 of
                None \<Rightarrow> None
              | Some (m, w2) \<Rightarrow>
                  (let mean_skew' = fmul fa m 1000000000000;
                       dtxs = fsub fa old_dtxs mean_skew';
                       drxs = fadd fa old_drxs mean_skew';
                       w3 = issue (Erase_sfp_config 0) w2;
                       w4 = issue (Write_sfp_config 0 sfp_sn port (Some (dtxs, drxs, beta))) w3;
                       w5 = issue (Load_sfp_config 0) w4
                   in refine fa err n_samples t_samples sfp_sn port beta (i + 1) mean_skew'
                        dtxs drxs (Some (dtxs, drxs)) w5)))
      else Some (i, mean_skew, dl, w))"
  by pat_completeness auto
termination
  by (relation "measure (\<lambda>(fa, err, n, t, sn, port, beta, i, rest). times - i)") auto

declare refine.simps [simp del]

text \<open>Lines 542 to 591: the coarse stage, up to the rewrite of the SFP entry.\<close>

definition coarse_stage ::
  "arith \<Rightarrow> int \<Rightarrow> int \<Rightarrow> int \<Rightarrow> string \<Rightarrow> real \<Rightarrow> real \<Rightarrow> world \<Rightarrow> ((error + real) \<times> world) option" where
  "coarse_stage fa n_samples t_samples port sfp_sn beta delta1 w =
     (let slave = 0;
          w1 = issue (Erase_sfp_config slave) w;
          w2 = issue (Write_sfp_config slave sfp_sn port (Some (0, 0, beta))) w1;
          w3 = issue (Load_sfp_config slave) w2;
          w4 = issue (Set_slaveport slave port) w3
      in case wait_trackphase slave w4 of
           None \<Rightarrow> None
         | Some w5 \<Rightarrow>
             (case sample_rtt fa slave (nat n_samples) t_samples 0 w5 of
                None \<Rightarrow> None
              | Some (Inl e, w6) \<Rightarrow> Some (Inl e, w6)
              | Some (Inr rtt_sum, w6) \<Rightarrow>
                  if n_samples = 0 then Some (Inl ZeroDivisionError, w6)
                  else
                    (let mean_rtt = fdiv fa rtt_sum (of_int n_samples)
                     in case get_phy_delays slave w6 of
                          None \<Rightarrow> None
                        | Some (((dtxm, drxm), (dtx_slave, bitslide)), w7) \<Rightarrow>
                            (let coarse_delays =
                                   fmul fa 0.5
                                     (fsub fa (fsub fa (fsub fa (fsub fa mean_rtt dtxm) drxm) bitslide)
                                        delta1);
                                 w8 = issue (Erase_sfp_config slave) w7;
                                 w9 = issue (Write_sfp_config slave sfp_sn port
                                               (Some (coarse_delays, coarse_delays, beta))) w8;
                                 w10 = issue (Load_sfp_config slave) w9
                             in Some (Inr coarse_delays, w10)))))"

definition calibrate_device_port ::
  "arith \<Rightarrow> real \<Rightarrow> int \<Rightarrow> int \<Rightarrow> int \<Rightarrow> string \<Rightarrow> session \<Rightarrow> world \<Rightarrow> outcome" where
  "calibrate_device_port fa err n_samples t_samples port sfp s w =
     (if devices s < 1 then Some (Inl WRDeviceNeeded, s, w)
      else if \<not> instr s then Some (Inl MeasurementInstrumentNeeded, s, w)
      else if cfg_delta1 s = 0 then Some (Inl FiberLatencyNeeded, s, w)
      else
        (let key = port_key sfp port
         in case map_of (cfg_fiber_asymmetry s) key of
              None \<Rightarrow> Some (Inl FiberLatencyNeeded, s, w)
            | Some beta \<Rightarrow>
                (let sfp_sn = (if sfp = ''blue'' then ''AXGE-1254-0531'' else ''AXGE-3454-0531'')
                 in case coarse_stage fa n_samples t_samples port sfp_sn beta (cfg_delta1 s) w of
                      None \<Rightarrow> None
                    | Some (Inl e, w1) \<Rightarrow> Some (Inl e, s, w1)
                    | Some (Inr coarse_delays, w1) \<Rightarrow>
                        (case refine fa err n_samples t_samples sfp_sn port beta 0 10000000000
                                coarse_delays coarse_delays None w1 of
                           None \<Rightarrow> None
                         | Some (i, mean_skew, None, w2) \<Rightarrow> Some (Inl UnboundLocalError, s, w2)
                         | Some (i, mean_skew, Some (dtxs, drxs), w2) \<Rightarrow>
                             Some (Inr (),
                                   s\<lparr>cfg_port_delay := dict_set key (dtxs, drxs) (cfg_port_delay s)\<rparr>,
                                   w2)))))"

section \<open>The record file: read\_config and write\_config\<close>

abbreviation newline :: char where
  "newline \<equiv> CHR 0x0A"

text \<open>\<^verbatim>\<open>s.split(c)\<close> for a one-character separator: always at least one part.\<close>

fun split_on :: "char \<Rightarrow> string \<Rightarrow> string list" where
  "split_on c [] = [[]]"
| "split_on c (x # xs) =
     (if x = c then [] # split_on c xs
      else (case split_on c xs of [] \<Rightarrow> [[x]] | p # ps \<Rightarrow> (x # p) # ps))"

text \<open>
  \<^verbatim>\<open>for line in cfg\<close>: the lines of the text, each with its newline; the last one
  may lack it. The text is the decoded content of the file.
\<close>

fun file_lines :: "string \<Rightarrow> string list" where
  "file_lines [] = []"
| "file_lines (x # xs) =
     (if x = newline then [x] # file_lines xs
      else (case file_lines xs of [] \<Rightarrow> [[x]] | l # ls \<Rightarrow> (x # l) # ls))"

text \<open>
  The builtin \<^verbatim>\<open>float\<close> is a parameter \<open>pf\<close> of the reader: \<open>None\<close> stands for its
  \<^verbatim>\<open>ValueError\<close>. The reader returns the error it raised, if any, and the session as
  it stands at that moment: every assignment is made on \<^verbatim>\<open>self.cfg_dict\<close> directly.
\<close>

type_synonym pyfloat = "string \<Rightarrow> real option"

text \<open>Lines 202 to 207.\<close>

definition latency_line :: "pyfloat \<Rightarrow> string \<Rightarrow> session \<Rightarrow> (error \<times> session) + (nat \<times> session)" where
  "latency_line pf line s =
     (case split_on CHR '' '' line of
        [] \<Rightarrow> Inl (IndexError, s)
      | t0 # ts \<Rightarrow>
          (case split_on CHR '':'' t0 of
             k0 # v0 # r0 \<Rightarrow>
               (case pf v0 of
                  None \<Rightarrow> Inl (ValueError, s)
                | Some delta1 \<Rightarrow>
                    (case ts of
                       [] \<Rightarrow> Inl (IndexError, s)
                     | t1 # ts' \<Rightarrow>
                         (case split_on CHR '':'' t1 of
                            k1 # v1 # r1 \<Rightarrow>
                              (case pf (butlast v1) of
                                 None \<Rightarrow> Inl (ValueError, s)
                               | Some delta2 \<Rightarrow>
                                   Inr (0, s\<lparr>cfg_delta1 := delta1, cfg_delta2 := delta2\<rparr>))
                          | _ \<Rightarrow> Inl (IndexError, s))))
           | _ \<Rightarrow> Inl (IndexError, s)))"

text \<open>Lines 210 to 217, over the tokens of one line.\<close>

fun asymmetry_tokens ::
  "pyfloat \<Rightarrow> string list \<Rightarrow> nat \<Rightarrow> session \<Rightarrow> (error \<times> session) + (nat \<times> session)" where
  "asymmetry_tokens pf [] flag s = Inr (flag, s)"
| "asymmetry_tokens pf (i # toks) flag s =
     (if i = [newline] then asymmetry_tokens pf toks flag s
      else
        (case split_on CHR '':'' i of
           k # v # r \<Rightarrow>
             (if v = [] then Inl (IndexError, s)
              else
                (let v' = (if last v = newline then butlast v else v);
                     flag' = (if last v = newline then 0 else flag)
                 in case pf v' of
                      None \<Rightarrow> Inl (ValueError, s)
                    | Some x \<Rightarrow>
                        asymmetry_tokens pf toks flag'
                          (s\<lparr>cfg_fiber_asymmetry := dict_set k x (cfg_fiber_asymmetry s)\<rparr>)))
         | _ \<Rightarrow> Inl (IndexError, s)))"

text \<open>Lines 220 to 228, over the tokens of one line.\<close>

fun delay_tokens ::
  "pyfloat \<Rightarrow> string list \<Rightarrow> nat \<Rightarrow> session \<Rightarrow> (error \<times> session) + (nat \<times> session)" where
  "delay_tokens pf [] flag s = Inr (flag, s)"
| "delay_tokens pf (i # toks) flag s =
     (if i = [newline] then delay_tokens pf toks flag s
      else
        (case split_on CHR '':'' i of
           k # v # r \<Rightarrow>
             (case split_on CHR '','' v of
                dtxs # drxs # r' \<Rightarrow>
                  (if drxs = [] then Inl (IndexError, s)
                   else
                     (let drxs' = (if last drxs = newline then butlast drxs else drxs);
                          flag' = (if last drxs = newline then 0 else flag)
                      in case pf dtxs of
                           None \<Rightarrow> Inl (ValueError, s)
                         | Some a \<Rightarrow>
                             (case pf drxs' of
                                None \<Rightarrow> Inl (ValueError, s)
                              | Some b \<Rightarrow>
                                  delay_tokens pf toks flag'
                                    (s\<lparr>cfg_port_delay := dict_set k (a, b) (cfg_port_delay s)\<rparr>))))
              | _ \<Rightarrow> Inl (IndexError, s))
         | _ \<Rightarrow> Inl (IndexError, s)))"

text \<open>The body of the loop over the lines, lines 191 to 228.\<close>

definition read_line :: "pyfloat \<Rightarrow> string \<Rightarrow> nat \<Rightarrow> session \<Rightarrow> (error \<times> session) + (nat \<times> session)" where
  "read_line pf line flag s =
     (case line of
        [] \<Rightarrow> Inl (IndexError, s)
      | c # rest \<Rightarrow>
          if c = CHR ''#'' then Inr (flag, s)
          else if c = CHR ''@'' then
            (let key = butlast rest;
                 flag1 = (if key = ''fiber-latency'' then 1 else flag);
                 flag2 = (if key = ''fiber-asymmetry'' then 2 else flag1);
                 flag3 = (if key = ''port-delay'' then 3 else flag2)
             in Inr (flag3, s))
          else
            (case (if flag = 1 then latency_line pf line s else Inr (flag, s)) of
               Inl e \<Rightarrow> Inl e
             | Inr (flag_a, s_a) \<Rightarrow>
                 (case (if flag_a = 2 then asymmetry_tokens pf (split_on CHR '' '' line) flag_a s_a
                        else Inr (flag_a, s_a)) of
                    Inl e \<Rightarrow> Inl e
                  | Inr (flag_b, s_b) \<Rightarrow>
                      (if flag_b = 3 then delay_tokens pf (split_on CHR '' '' line) flag_b s_b
                       else Inr (flag_b, s_b)))))"

fun read_lines :: "pyfloat \<Rightarrow> string list \<Rightarrow> nat \<Rightarrow> session \<Rightarrow> (error + unit) \<times> session" where
  "read_lines pf [] flag s = (Inr (), s)"
| "read_lines pf (line # ls) flag s =
     (case read_line pf line flag s of
        Inl (e, s') \<Rightarrow> (Inl e, s')
      | Inr (flag', s') \<Rightarrow> read_lines pf ls flag' s')"

definition read_config :: "pyfloat \<Rightarrow> string \<Rightarrow> session \<Rightarrow> (error + unit) \<times> session" where
  "read_config pf cfg_text s = read_lines pf (file_lines cfg_text) 0 s"


text \<open>
  \<^verbatim>\<open>"%d" % x\<close> for a float truncates towards zero; \<^verbatim>\<open>"%.1f" % x\<close> rounds to one
  decimal, a tie going to the even digit.
\<close>

definition py_int :: "real \<Rightarrow> int" where
  "py_int x = (if 0 \<le> x then \<lfloor>x\<rfloor> else \<lceil>x\<rceil>)"












text \<open>
  A reading of \<^verbatim>\<open>float\<close> on plain decimal notation (an optional sign, digits, an
  optional point and digits), the notation \<open>write_config\<close> produces. It serves as the
  concrete \<open>pf\<close> on such texts; exponents, blanks and the special values are outside it.
\<close>

definition digit_val :: "char \<Rightarrow> nat option" where
  "digit_val c =
     (if c \<in> set ''0123456789'' then Some (of_char c - 48) else None)"

fun nat_of_digits :: "string \<Rightarrow> nat \<Rightarrow> nat option" where
  "nat_of_digits [] acc = Some acc"
| "nat_of_digits (c # cs) acc =
     (case digit_val c of None \<Rightarrow> None | Some d \<Rightarrow> nat_of_digits cs (10 * acc + d))"

definition unsigned_dec :: "string \<Rightarrow> real option" where
  "unsigned_dec r =
     (case split_on CHR ''.'' r of
        [ip] \<Rightarrow> (if ip = [] then None else map_option real (nat_of_digits ip 0))
      | [ip, fp] \<Rightarrow>
          (if ip = [] \<and> fp = [] then None
           else
             (case (nat_of_digits ip 0, nat_of_digits fp 0) of
                (Some a, Some b) \<Rightarrow> Some (real a + real b / 10 ^ length fp)
              | _ \<Rightarrow> None))
      | _ \<Rightarrow> None)"

definition float_dec :: pyfloat where
  "float_dec t =
     (case t of
        [] \<Rightarrow> None
      | c # r \<Rightarrow>
          if c = CHR ''-'' then map_option uminus (unsigned_dec r)
          else if c = CHR ''+'' then unsigned_dec r
          else unsigned_dec t)"

section \<open>Class attributes and instances\<close>

text \<open>
  \<^verbatim>\<open>cfg_dict\<close>, \<^verbatim>\<open>devices\<close>, \<^verbatim>\<open>instr\<close> and \<^verbatim>\<open>show_dbg\<close> are attributes of the class
  \<^verbatim>\<open>WR_calibration\<close>. Reading \<^verbatim>\<open>self.x\<close> gives the attribute of the instance when it
  has one of that name and the attribute of the class otherwise; assigning to
  \<^verbatim>\<open>self.x\<close> creates an attribute of the instance, whereas \<^verbatim>\<open>self.x[...] = v\<close> and
  \<^verbatim>\<open>self.x.append(v)\<close> change the object that \<^verbatim>\<open>self.x\<close> reads. The store holds the
  dictionary and the list bound to the class, and for every instance created so far the
  attributes of its own. No method assigns to \<^verbatim>\<open>self.cfg_dict\<close>, so the dictionary of
  the class is the only one.
\<close>

datatype device = Device string string string

record wr_instance =
  own_devices :: "device list option"
  own_instr :: "string option"
  own_show_dbg :: "bool option"

record store =
  class_delta1 :: real
  class_delta2 :: real
  class_fiber_asymmetry :: "(string \<times> real) list"
  class_port_delay :: "(string \<times> (real \<times> real)) list"
  class_devices :: "device list"
  instances :: "wr_instance list"

text \<open>The state of the program once the class body has run, lines 48 to 59.\<close>

definition class_body :: store where
  "class_body =
     \<lparr>class_delta1 = 0, class_delta2 = 0, class_fiber_asymmetry = [], class_port_delay = [],
      class_devices = [], instances = []\<rparr>"

text \<open>
  \<^verbatim>\<open>WR_calibration()\<close>: the constructor, lines 65 to 70, returns the new instance (its
  index) and the store.
\<close>

definition construct :: "store \<Rightarrow> nat \<times> store" where
  "construct h =
     (length (instances h),
      h\<lparr>class_delta1 := 0, class_delta2 := 0, class_fiber_asymmetry := [], class_port_delay := [],
        instances := instances h @ [\<lparr>own_devices = None, own_instr = None, own_show_dbg = None\<rparr>]\<rparr>)"

text \<open>What \<^verbatim>\<open>self.devices\<close> reads on instance \<open>i\<close>.\<close>

definition devices_of :: "store \<Rightarrow> nat \<Rightarrow> device list" where
  "devices_of h i =
     (case own_devices (instances h ! i) of None \<Rightarrow> class_devices h | Some ds \<Rightarrow> ds)"

text \<open>
  \<open>add_wr_device\<close>, lines 118 to 128; \<open>found\<close> says whether the module
  \<^verbatim>\<open>wr_devices.<name>\<close> can be imported.
\<close>

definition add_wr_device :: "(string \<Rightarrow> bool) \<Rightarrow> string \<Rightarrow> string list \<Rightarrow> nat \<Rightarrow> store \<Rightarrow> error + store" where
  "add_wr_device found name device_params i h =
     (if \<not> found name then Inl DeviceNotFound
      else
        (case device_params of
           p0 # p1 # ps \<Rightarrow>
             (case own_devices (instances h ! i) of
                None \<Rightarrow> Inr (h\<lparr>class_devices := class_devices h @ [Device name p0 p1]\<rparr>)
              | Some ds \<Rightarrow>
                  Inr (h\<lparr>instances :=
                           (instances h)[i := (instances h ! i)\<lparr>own_devices := Some (ds @ [Device name p0 p1])\<rparr>]\<rparr>))
         | _ \<Rightarrow> Inl IndexError))"

text \<open>\<open>remove_wr_devices\<close>, lines 136 to 141: the assignment makes an attribute of the instance.\<close>

definition remove_wr_devices :: "nat \<Rightarrow> store \<Rightarrow> store" where
  "remove_wr_devices i h =
     h\<lparr>instances := (instances h)[i := (instances h ! i)\<lparr>own_devices := Some []\<rparr>]\<rparr>"

text \<open>The two assignments that end \<open>fiber_latency\<close>, lines 381 and 382.\<close>

definition store_fiber_latency :: "real \<Rightarrow> real \<Rightarrow> nat \<Rightarrow> store \<Rightarrow> store" where
  "store_fiber_latency delta1 delta2 i h = h\<lparr>class_delta1 := delta1, class_delta2 := delta2\<rparr>"

text \<open>The session that the methods of instance \<open>i\<close> work on.\<close>

definition session_of :: "store \<Rightarrow> nat \<Rightarrow> session" where
  "session_of h i =
     \<lparr>cfg_delta1 = class_delta1 h, cfg_delta2 = class_delta2 h,
      cfg_fiber_asymmetry = class_fiber_asymmetry h, cfg_port_delay = class_port_delay h,
      devices = length (devices_of h i),
      instr = (own_instr (instances h ! i) \<noteq> None),
      show_dbg = (case own_show_dbg (instances h ! i) of None \<Rightarrow> False | Some b \<Rightarrow> b)\<rparr>"

section \<open>Observations on a run\<close>

text \<open>
  The number of skew measurements and of SFP entries written so far, and the number of
  times the device will still report track phase.
\<close>

fun is_measurement :: "cmd \<Rightarrow> bool" where
  "is_measurement (Mean_time_interval n t) = True"
| "is_measurement c = False"

fun is_rewrite :: "cmd \<Rightarrow> bool" where
  "is_rewrite (Write_sfp_config d sn port a) = True"
| "is_rewrite c = False"

definition measurements :: "world \<Rightarrow> nat" where
  "measurements w = length (filter is_measurement (issued w))"

definition sfp_writes :: "world \<Rightarrow> nat" where
  "sfp_writes w = length (filter is_rewrite (issued w))"

definition locks :: "world \<Rightarrow> nat" where
  "locks w = length (filter (\<lambda>b. b) (trackphase_ans w))"

text \<open>
  The delays after a series of measured skews (in seconds), each one applied as
  \<open>dtxs = old_dtxs - mean_skew\<close> and \<open>drxs = old_drxs + mean_skew\<close> with the skew in
  picoseconds, in the arithmetic of the run.
\<close>

definition delay_update :: "arith \<Rightarrow> real \<times> real \<Rightarrow> real \<Rightarrow> real \<times> real" where
  "delay_update fa d m =
     (fsub fa (fst d) (fmul fa m 1000000000000), fadd fa (snd d) (fmul fa m 1000000000000))"

definition after_updates :: "arith \<Rightarrow> real \<times> real \<Rightarrow> real list \<Rightarrow> real \<times> real" where
  "after_updates fa d ms = foldl (delay_update fa) d ms"

text \<open>
  The arithmetic without rounding. Binary64 arithmetic agrees with it on every
  operation whose exact result is a float; the instrument readings of the sample worlds
  below are negative powers of two (and small multiples), chosen so that this is the
  case for every operation of the runs on them.
\<close>

definition exact_arith :: arith where
  "exact_arith = \<lparr>fadd = (+), fsub = (-), fmul = (*), fdiv = (/)\<rparr>"

section \<open>Sample inputs\<close>

definition ready_session :: session where
  "ready_session =
     \<lparr>cfg_delta1 = 1500, cfg_delta2 = 2000, cfg_fiber_asymmetry = [(''blue-wr1'', 7)],
      cfg_port_delay = [], devices = 2, instr = True, show_dbg = False\<rparr>"

definition quiet_world :: world where
  "quiet_world =
     \<lparr>issued = [], trackphase_ans = [], rtt_ans = [], phy_ans = [], interval_ans = []\<rparr>"

text \<open>
  A device that locks at the second poll and at every later one, two round-trip times,
  one reading of the physical delays, and twelve skew readings: \<open>2^-31\<close> s (about 466 ps),
  then \<open>2^-35\<close> s (about 29 ps), then \<open>2^-31\<close> s again.
\<close>

definition bench_skews :: "real list" where
  "bench_skews =
     [1 / 2147483648, 1 / 34359738368, 1 / 2147483648, 1 / 2147483648, 1 / 2147483648,
      1 / 2147483648, 1 / 2147483648, 1 / 2147483648, 1 / 2147483648, 1 / 2147483648,
      1 / 2147483648, 1 / 2147483648]"

definition bench_world :: world where
  "bench_world =
     \<lparr>issued = [],
      trackphase_ans = [False, True, True, True, True, True, True, True, True, True, True, True],
      rtt_ans = [1000, 3000], phy_ans = [((10, 20), (0, 30))], interval_ans = bench_skews\<rparr>"

text \<open>The same world once the coarse stage has run on it (two samples, port 1, blue SFP).\<close>

definition coarse_world :: world where
  "coarse_world =
     \<lparr>issued =
        [Erase_sfp_config 0, Write_sfp_config 0 ''AXGE-1254-0531'' 1 (Some (0, 0, 7)),
         Load_sfp_config 0, Set_slaveport 0 1, In_trackphase 0, In_trackphase 0,
         Get_rtt 0, Get_rtt 0, Get_phy_delays 0, Erase_sfp_config 0,
         Write_sfp_config 0 ''AXGE-1254-0531'' 1 (Some (220, 220, 7)), Load_sfp_config 0],
      trackphase_ans = [True, True, True, True, True, True, True, True, True, True],
      rtt_ans = [], phy_ans = [], interval_ans = bench_skews\<rparr>"

text \<open>
  The asymmetry coefficient as the specification derives it from the two skews (in
  picoseconds, after the sign correction) and \<open>delta2\<close>:
  \<open>dif = skew_f2 - skew_f1\<close>, \<open>alpha = 2*dif / (0.5*delta2 - dif)\<close>,
  \<open>alpha_n = 2^40 * ((alpha+1)/(alpha+2) - 0.5)\<close>, in the arithmetic \<open>fa\<close>.
\<close>

definition alpha_n_spec :: "arith \<Rightarrow> real \<Rightarrow> real \<Rightarrow> real \<Rightarrow> real" where
  "alpha_n_spec fa delta2 skew_f1 skew_f2 =
     (let dif = fsub fa skew_f2 skew_f1;
          alpha = fdiv fa (fmul fa 2 dif) (fsub fa (fmul fa 0.5 delta2) dif)
      in fmul fa (2 ^ 40) (fsub fa (fdiv fa (fadd fa alpha 1) (fadd fa alpha 2)) 0.5))"

text \<open>
  Instrument readings of \<open>2^-33\<close> s and \<open>-3 * 2^-33\<close> s (about 116 ps and -349 ps) and a
  session whose \<open>delta2\<close> is \<open>5^12 / 2^17\<close> ps (about 1863 ps), four times the
  difference of the two skews; and readings far outside the valid band.
\<close>

definition skew_world :: world where
  "skew_world =
     \<lparr>issued = [], trackphase_ans = [True, False, True], rtt_ans = [], phy_ans = [],
      interval_ans = [1 / 8589934592, - (3 / 8589934592)]\<rparr>"

definition skew_session :: session where
  "skew_session =
     \<lparr>cfg_delta1 = 1500, cfg_delta2 = 244140625 / 131072, cfg_fiber_asymmetry = [],
      cfg_port_delay = [], devices = 2, instr = True, show_dbg = False\<rparr>"

definition miswired_world :: world where
  "miswired_world =
     \<lparr>issued = [], trackphase_ans = [True, True], rtt_ans = [], phy_ans = [],
      interval_ans = [- (5 / 1000000), - (1 / 2)]\<rparr>"

text \<open>Two instances, the first of which has measured a fiber latency before the second was made.\<close>

definition two_instances :: store where
  "two_instances = snd (construct (store_fiber_latency 1500 2000 0 (snd (construct class_body))))"


definition truncated :: "real \<Rightarrow> real" where
  "truncated x = of_int (py_int x)"


definition measured_session :: session where
  "measured_session =
     \<lparr>cfg_delta1 = 30864 / 25, cfg_delta2 = 2000,
      cfg_fiber_asymmetry = [(''blue-wr1'', 2199023 / 10), (''violet-wr1'', - (79 / 10))],
      cfg_port_delay = [(''blue-wr1'', (- (661 / 2), 1541 / 2))],
      devices = 2, instr = True, show_dbg = False\<rparr>"



definition record_text :: string where
  "record_text =
     ''#12:00 150423'' @ [newline] @
     ''@fiber-latency'' @ [newline] @
     ''delta1:1234.6 delta2:2000.0'' @ [newline] @
     ''@fiber-asymmetry'' @ [newline] @
     ''blue-wr1:5 '' @ [newline] @
     ''@port-delay'' @ [newline] @
     ''blue-wr1:10,20 '' @ [newline]"

section \<open>Preconditions of the estimators\<close>


text \<open>
  C8. With at least two devices (one for \<open>calibrate_device_port\<close>) and an instrument
  present, a session whose \<open>delta1\<close> is 0 makes both estimators raise
  \<open>FiberLatencyNeeded\<close>; the session and the world, and so the list of issued
  commands, are returned as they were.
\<close>

theorem fiber_latency_needed:
  "cfg_delta1 s = 0 \<longrightarrow>
     (2 \<le> devices s \<and> instr s \<longrightarrow>
        fiber_asymmetry fa n_samples t_samples port sfp s w = Some (Inl FiberLatencyNeeded, s, w)) \<and>
     (1 \<le> devices s \<and> instr s \<longrightarrow>
        calibrate_device_port fa err n_samples t_samples port sfp s w = Some (Inl FiberLatencyNeeded, s, w))"
  by (simp add: fiber_asymmetry_def calibrate_device_port_def)

theorem fiber_latency_needed_witness:
  "cfg_delta1 (ready_session\<lparr>cfg_delta1 := 0\<rparr>) = 0 \<and>
   2 \<le> devices (ready_session\<lparr>cfg_delta1 := 0\<rparr>) \<and> instr (ready_session\<lparr>cfg_delta1 := 0\<rparr>) \<and>
   fiber_asymmetry exact_arith 10 5 1 ''blue'' (ready_session\<lparr>cfg_delta1 := 0\<rparr>) quiet_world
     = Some (Inl FiberLatencyNeeded, ready_session\<lparr>cfg_delta1 := 0\<rparr>, quiet_world) \<and>
   calibrate_device_port exact_arith 100 10 5 1 ''blue'' (ready_session\<lparr>cfg_delta1 := 0\<rparr>) quiet_world
     = Some (Inl FiberLatencyNeeded, ready_session\<lparr>cfg_delta1 := 0\<rparr>, quiet_world)"
  using fiber_latency_needed [where s = "ready_session\<lparr>cfg_delta1 := 0\<rparr>" and fa = exact_arith
      and n_samples = 10 and t_samples = 5 and port = 1 and sfp = "''blue''" and w = quiet_world
      and err = 100]
  by (simp add: ready_session_def)

lemmas str_eval = port_key_def str_int_def str_nat.simps digit_char_def

lemma missing_asymmetry_entry:
  "1 \<le> devices s \<Longrightarrow> instr s \<Longrightarrow> cfg_delta1 s \<noteq> 0 \<Longrightarrow>
   map_of (cfg_fiber_asymmetry s) (port_key sfp port) = None \<Longrightarrow>
   calibrate_device_port fa err n_samples t_samples port sfp s w = Some (Inl FiberLatencyNeeded, s, w)"
  by (simp add: calibrate_device_port_def)

text \<open>
  C2. A session with a measured fiber latency and an instrument, but with no asymmetry
  entry for \<open>violet-wr1\<close>: \<open>calibrate_device_port\<close> stops before any command is issued,
  and the error it raises is \<open>FiberLatencyNeeded\<close>, not \<open>FiberAsymmetryNeeded\<close>
  (line 540); \<open>missing_asymmetry_entry\<close> shows the same for every such session.
\<close>

theorem missing_asymmetry_raises_latency_needed:
  "calibrate_device_port fa 100 10 5 1 ''violet'' ready_session quiet_world
     = Some (Inl FiberLatencyNeeded, ready_session, quiet_world)"
  by (simp add: calibrate_device_port_def ready_session_def str_eval)

section \<open>The refinement loop of calibrate\_device\_port\<close>

lemma poll_trackphase_some:
  "poll_trackphase d bs tr = Some (bs', tr') \<Longrightarrow>
     filter is_measurement tr' = filter is_measurement tr \<and>
     filter is_rewrite tr' = filter is_rewrite tr \<and>
     Suc (length (filter (\<lambda>b. b) bs')) = length (filter (\<lambda>b. b) bs)"
  by (induction d bs tr rule: poll_trackphase.induct) (auto split: if_splits)

lemma poll_trackphase_locks:
  "0 < length (filter (\<lambda>b. b) bs) \<Longrightarrow> \<exists>r. poll_trackphase d bs tr = Some r"
  by (induction d bs tr rule: poll_trackphase.induct) auto

lemma wait_trackphase_some:
  assumes "wait_trackphase d w = Some w'"
  shows "measurements w' = measurements w" "sfp_writes w' = sfp_writes w" "Suc (locks w') = locks w"
    "interval_ans w' = interval_ans w" "rtt_ans w' = rtt_ans w" "phy_ans w' = phy_ans w"
  using assms poll_trackphase_some [of d "trackphase_ans w" "issued w"]
  by (auto simp: wait_trackphase_def measurements_def sfp_writes_def locks_def split: option.splits)

lemma wait_trackphase_locks:
  "0 < locks w \<Longrightarrow> \<exists>w'. wait_trackphase d w = Some w'"
  using poll_trackphase_locks [of "trackphase_ans w" d "issued w"]
  by (auto simp: wait_trackphase_def locks_def split: option.splits)

lemma mean_time_interval_some:
  assumes "mean_time_interval n t w = Some (m, w')"
  shows "measurements w' = Suc (measurements w)" "sfp_writes w' = sfp_writes w" "locks w' = locks w"
    "interval_ans w = m # interval_ans w'"
  using assms
  by (auto simp: mean_time_interval_def measurements_def sfp_writes_def locks_def split: list.splits)

lemma issue_counts:
  "measurements (issue c w) = measurements w + (if is_measurement c then 1 else 0)"
  "sfp_writes (issue c w) = sfp_writes w + (if is_rewrite c then 1 else 0)"
  "locks (issue c w) = locks w"
  "interval_ans (issue c w) = interval_ans w"
  by (simp_all add: issue_def measurements_def sfp_writes_def locks_def)

lemma refine_counts:
  "refine fa err n t sn port beta i v dt0 dr0 dl w = Some (i', v', dl', w') \<Longrightarrow>
     i \<le> i' \<and> measurements w' = measurements w + (i' - i) \<and> sfp_writes w' = sfp_writes w + (i' - i) \<and>
     (i < i' \<longrightarrow> dl' \<noteq> None) \<and> (i' = i \<longrightarrow> dl' = dl \<and> w' = w \<and> v' = v) \<and>
     (err < \<bar>v\<bar> \<and> i < times \<longrightarrow> i < i')"
proof (induction fa err n t sn port beta i v dt0 dr0 dl w rule: refine.induct)
  case (1 fa err n t sn port beta i v dt0 dr0 dl w)
  show ?case
  proof (cases "err < \<bar>v\<bar> \<and> i < times")
    case False
    with "1.prems" show ?thesis by (simp add: refine.simps)
  next
    case True
    from "1.prems" True obtain w1 where w1: "wait_trackphase 0 w = Some w1"
      by (auto simp: refine.simps [of fa err n t sn port beta i v] split: option.splits)
    from "1.prems" True w1 obtain m w2 where w2: "mean_time_interval n t w1 = Some (m, w2)"
      by (auto simp: refine.simps [of fa err n t sn port beta i v] split: option.splits)
    define v2 where "v2 = fmul fa m 1000000000000"
    define dt where "dt = fsub fa dt0 v2"
    define dr where "dr = fadd fa dr0 v2"
    define w5 where "w5 = issue (Load_sfp_config 0)
        (issue (Write_sfp_config 0 sn port (Some (dt, dr, beta))) (issue (Erase_sfp_config 0) w2))"
    from "1.prems" True w1 w2
    have rec: "refine fa err n t sn port beta (i + 1) v2 dt dr (Some (dt, dr)) w5
                 = Some (i', v', dl', w')"
      by (simp add: refine.simps [of fa err n t sn port beta i v] Let_def v2_def dt_def dr_def w5_def)
    have ih: "i + 1 \<le> i' \<and> measurements w' = measurements w5 + (i' - (i + 1)) \<and>
        sfp_writes w' = sfp_writes w5 + (i' - (i + 1)) \<and> (i + 1 < i' \<longrightarrow> dl' \<noteq> None) \<and>
        (i' = i + 1 \<longrightarrow> dl' = Some (dt, dr) \<and> w' = w5 \<and> v' = v2)"
      using "1.IH" [OF True w1 w2 refl v2_def dt_def dr_def refl refl w5_def rec] by simp
    have c5: "measurements w5 = Suc (measurements w)" "sfp_writes w5 = Suc (sfp_writes w)"
      using wait_trackphase_some [OF w1] mean_time_interval_some [OF w2]
      by (simp_all add: w5_def issue_counts)
    from ih c5 True show ?thesis by auto
  qed
qed

lemma mean_time_interval_cons:
  "interval_ans w = m # xs \<Longrightarrow>
   \<exists>w'. mean_time_interval n t w = Some (m, w') \<and> interval_ans w' = xs"
  by (simp add: mean_time_interval_def)

lemma refine_stop:
  "\<not> (err < \<bar>v\<bar> \<and> i < times) \<Longrightarrow>
   refine fa err n t sn port beta i v dt0 dr0 dl w = Some (i, v, dl, w)"
  by (subst refine.simps) (rule if_not_P)

text \<open>
  One pass of the loop body: with the loop condition true, a device that locks and an
  instrument that answers \<open>m\<close>, the loop goes on from the state the pass leaves.
\<close>

lemma refine_pass:
  assumes "err < \<bar>v\<bar>" and "i < times" and "0 < locks w" and "interval_ans w = m # xs"
  shows "\<exists>w5. refine fa err n t sn port beta i v dt0 dr0 dl w =
             refine fa err n t sn port beta (i + 1) (fmul fa m 1000000000000)
               (fsub fa dt0 (fmul fa m 1000000000000)) (fadd fa dr0 (fmul fa m 1000000000000))
               (Some (delay_update fa (dt0, dr0) m)) w5 \<and>
           interval_ans w5 = xs \<and> Suc (locks w5) = locks w \<and>
           measurements w5 = Suc (measurements w) \<and> sfp_writes w5 = Suc (sfp_writes w)"
proof -
  from assms(3) obtain w1 where w1: "wait_trackphase 0 w = Some w1"
    using wait_trackphase_locks [of w 0] by auto
  note c1 = wait_trackphase_some [OF w1]
  from assms(4) c1 have "interval_ans w1 = m # xs" by simp
  then obtain w2 where w2: "mean_time_interval n t w1 = Some (m, w2)"
    and i2: "interval_ans w2 = xs"
    using mean_time_interval_cons by blast
  note c2 = mean_time_interval_some [OF w2]
  define v2 where "v2 = fmul fa m 1000000000000"
  define w5 where "w5 = issue (Load_sfp_config 0)
      (issue (Write_sfp_config 0 sn port (Some (fsub fa dt0 v2, fadd fa dr0 v2, beta)))
         (issue (Erase_sfp_config 0) w2))"
  have step: "refine fa err n t sn port beta i v dt0 dr0 dl w =
      refine fa err n t sn port beta (i + 1) v2 (fsub fa dt0 v2) (fadd fa dr0 v2)
        (Some (fsub fa dt0 v2, fadd fa dr0 v2)) w5"
    using assms(1,2) w1 w2
    by (simp add: refine.simps [of fa err n t sn port beta i v] Let_def v2_def w5_def)
  have c5: "interval_ans w5 = xs" "Suc (locks w5) = locks w"
    "measurements w5 = Suc (measurements w)" "sfp_writes w5 = Suc (sfp_writes w)"
    using c1 c2 i2 by (simp_all add: w5_def issue_counts)
  from step c5 show ?thesis
    by (auto simp: v2_def delay_update_def)
qed

lemma refine_run:
  assumes "interval_ans w = ms @ rest" "ms \<noteq> []" "length ms \<le> locks w" "i + length ms \<le> times"
    and "err < \<bar>v\<bar>" "\<forall>m \<in> set (butlast ms). err < \<bar>fmul fa m 1000000000000\<bar>"
    and "i + length ms = times \<or> \<bar>fmul fa (last ms) 1000000000000\<bar> \<le> err"
  shows "\<exists>w'. refine fa err n t sn port beta i v dt0 dr0 dl w =
             Some (i + length ms, fmul fa (last ms) 1000000000000,
                   Some (after_updates fa (dt0, dr0) ms), w') \<and>
           interval_ans w' = rest \<and> measurements w' = measurements w + length ms"
  using assms
proof (induction ms arbitrary: i v dt0 dr0 dl w)
  case Nil
  then show ?case by simp
next
  case (Cons m ms)
  define v2 where "v2 = fmul fa m 1000000000000"
  define dt where "dt = fsub fa dt0 v2"
  define dr where "dr = fadd fa dr0 v2"
  have g: "err < \<bar>v\<bar>" "i < times" "0 < locks w" "interval_ans w = m # (ms @ rest)"
    using Cons.prems by simp_all
  from refine_pass [OF g, of fa n t sn port beta dt0 dr0 dl] obtain w5 where
    step: "refine fa err n t sn port beta i v dt0 dr0 dl w =
      refine fa err n t sn port beta (i + 1) v2 dt dr (Some (dt, dr)) w5"
    and c5: "interval_ans w5 = ms @ rest" "Suc (locks w5) = locks w"
      "measurements w5 = Suc (measurements w)"
    by (auto simp: v2_def dt_def dr_def delay_update_def)
  have upd: "after_updates fa (dt0, dr0) (m # ms) = after_updates fa (dt, dr) ms"
    by (simp add: after_updates_def delay_update_def v2_def dt_def dr_def)
  show ?case
  proof (cases "ms = []")
    case True
    with Cons.prems have "\<not> (err < \<bar>v2\<bar> \<and> i + 1 < times)" by (auto simp: v2_def)
    then have "refine fa err n t sn port beta (i + 1) v2 dt dr (Some (dt, dr)) w5
        = Some (i + 1, v2, Some (dt, dr), w5)"
      by (rule refine_stop)
    with step c5 True show ?thesis
      by (simp add: v2_def dt_def dr_def after_updates_def delay_update_def)
  next
    case False
    have "\<exists>w'. refine fa err n t sn port beta (i + 1) v2 dt dr (Some (dt, dr)) w5 =
             Some (i + 1 + length ms, fmul fa (last ms) 1000000000000,
                   Some (after_updates fa (dt, dr) ms), w') \<and>
           interval_ans w' = rest \<and> measurements w' = measurements w5 + length ms"
    proof (rule Cons.IH [OF c5(1) False])
      show "length ms \<le> locks w5" using Cons.prems c5 by simp
      show "i + 1 + length ms \<le> times" using Cons.prems by simp
      show "err < \<bar>v2\<bar>" using Cons.prems False by (simp add: v2_def)
      show "\<forall>m\<in>set (butlast ms). err < \<bar>fmul fa m 1000000000000\<bar>" using Cons.prems False by simp
      show "i + 1 + length ms = times \<or> \<bar>fmul fa (last ms) 1000000000000\<bar> \<le> err"
        using Cons.prems False by simp
    qed
    with step c5 upd False show ?thesis by auto
  qed
qed

text \<open>
  The loop returns whatever the instrument reads, provided the device locks, and the
  instrument answers, as many times as there are passes left.
\<close>

lemma refine_returns:
  "times - i \<le> locks w \<Longrightarrow> times - i \<le> length (interval_ans w) \<Longrightarrow>
   \<exists>r. refine fa err n t sn port beta i v dt0 dr0 dl w = Some r"
proof (induction "times - i" arbitrary: i v dt0 dr0 dl w)
  case 0
  then have "\<not> (err < \<bar>v\<bar> \<and> i < times)" by simp
  from refine_stop [OF this] show ?case by blast
next
  case (Suc k)
  show ?case
  proof (cases "err < \<bar>v\<bar> \<and> i < times")
    case False
    from refine_stop [OF this] show ?thesis by blast
  next
    case True
    from Suc.hyps(2) Suc.prems obtain m xs where ia: "interval_ans w = m # xs"
      by (cases "interval_ans w") auto
    from Suc.hyps(2) Suc.prems have l: "0 < locks w" by simp
    from True have g: "err < \<bar>v\<bar>" "i < times" by simp_all
    from refine_pass [OF g l ia, of fa n t sn port beta dt0 dr0 dl] obtain w5 where
      step: "refine fa err n t sn port beta i v dt0 dr0 dl w =
        refine fa err n t sn port beta (i + 1) (fmul fa m 1000000000000)
          (fsub fa dt0 (fmul fa m 1000000000000)) (fadd fa dr0 (fmul fa m 1000000000000))
          (Some (delay_update fa (dt0, dr0) m)) w5"
      and c5: "interval_ans w5 = xs" "Suc (locks w5) = locks w"
      by blast
    have "\<exists>r. refine fa err n t sn port beta (i + 1) (fmul fa m 1000000000000)
          (fsub fa dt0 (fmul fa m 1000000000000)) (fadd fa dr0 (fmul fa m 1000000000000))
          (Some (delay_update fa (dt0, dr0) m)) w5 = Some r"
    proof (rule Suc.hyps(1))
      show "k = times - (i + 1)" using Suc.hyps(2) by simp
      show "times - (i + 1) \<le> locks w5" using Suc.prems(1) c5 by simp
      show "times - (i + 1) \<le> length (interval_ans w5)" using Suc.prems(2) c5 ia by simp
    qed
    with step show ?thesis by simp
  qed
qed

lemma coarse_bench:
  "coarse_stage exact_arith 2 1 1 ''AXGE-1254-0531'' 7 1500 bench_world = Some (Inr 220, coarse_world)"
  by (simp add: coarse_stage_def bench_world_def coarse_world_def wait_trackphase_def
      get_phy_delays_def issue_def Let_def numeral_2_eq_2 exact_arith_def)

text \<open>
  C5. The variable \<open>mean_skew\<close> starts at \<open>10000000000\<close> and then takes the measured
  skews \<open>ms\<close> (seconds), each multiplied by \<open>1e12\<close> in the arithmetic of the run. Let
  the loop condition \<open>err < \<bar>mean_skew\<bar>\<close> hold for the start value and for every
  measured skew but the last, and let the last one be within \<open>err\<close> or be the tenth
  (\<open>times\<close>). With the coarse stage done and a device that locks for each pass,
  \<open>calibrate_device_port\<close> returns normally, has made exactly \<open>length ms\<close>
  measurements (the following answers of the instrument are left unread), and has
  stored under the port key the delays after \<open>length ms\<close> updates
  \<open>dtxs = old_dtxs - mean_skew\<close>, \<open>drxs = old_drxs + mean_skew\<close> from the coarse delay:
  after convergence in \<open>k < 10\<close> passes, or after the tenth pass whether it converged
  or not.
\<close>

theorem refinement_loop:
  assumes "1 \<le> devices s" and "instr s" and "cfg_delta1 s \<noteq> 0"
    and "map_of (cfg_fiber_asymmetry s) (port_key sfp port) = Some beta"
    and "coarse_stage fa n_samples t_samples port
           (if sfp = ''blue'' then ''AXGE-1254-0531'' else ''AXGE-3454-0531'') beta (cfg_delta1 s) w
         = Some (Inr coarse_delays, w1)"
    and "interval_ans w1 = ms @ rest" and "ms \<noteq> []" and "length ms \<le> times"
    and "length ms \<le> locks w1"
    and "\<forall>v \<in> set (10000000000 # map (\<lambda>m. fmul fa m 1000000000000) (butlast ms)). err < \<bar>v\<bar>"
    and "length ms = times \<or> \<bar>fmul fa (last ms) 1000000000000\<bar> \<le> err"
  shows "\<exists>w'. calibrate_device_port fa err n_samples t_samples port sfp s w =
            Some (Inr (),
                  s\<lparr>cfg_port_delay :=
                      dict_set (port_key sfp port) (after_updates fa (coarse_delays, coarse_delays) ms)
                        (cfg_port_delay s)\<rparr>,
                  w') \<and>
          measurements w' = measurements w1 + length ms \<and> interval_ans w' = rest"
proof -
  let ?sn = "if sfp = ''blue'' then ''AXGE-1254-0531'' else ''AXGE-3454-0531''"
  have "\<exists>w'. refine fa err n_samples t_samples ?sn port beta 0 10000000000 coarse_delays coarse_delays None w1 =
             Some (0 + length ms, fmul fa (last ms) 1000000000000,
                   Some (after_updates fa (coarse_delays, coarse_delays) ms), w') \<and>
           interval_ans w' = rest \<and> measurements w' = measurements w1 + length ms"
    using assms(6-11) by (intro refine_run) auto
  then obtain w' where
    r: "refine fa err n_samples t_samples ?sn port beta 0 10000000000 coarse_delays coarse_delays None w1 =
          Some (length ms, fmul fa (last ms) 1000000000000,
                Some (after_updates fa (coarse_delays, coarse_delays) ms), w')"
    and o: "interval_ans w' = rest" "measurements w' = measurements w1 + length ms"
    by auto
  obtain a b where ab: "after_updates fa (coarse_delays, coarse_delays) ms = (a, b)"
    by (cases "after_updates fa (coarse_delays, coarse_delays) ms")
  have "calibrate_device_port fa err n_samples t_samples port sfp s w =
      Some (Inr (), s\<lparr>cfg_port_delay := dict_set (port_key sfp port) (a, b) (cfg_port_delay s)\<rparr>, w')"
    using assms(1-5) r ab by (simp add: calibrate_device_port_def)
  with o ab show ?thesis by auto
qed

theorem refinement_loop_witness:
  "1 \<le> devices ready_session \<and> instr ready_session \<and> cfg_delta1 ready_session \<noteq> 0 \<and>
   map_of (cfg_fiber_asymmetry ready_session) (port_key ''blue'' 1) = Some 7 \<and>
   coarse_stage exact_arith 2 1 1 ''AXGE-1254-0531'' 7 (cfg_delta1 ready_session) bench_world
     = Some (Inr 220, coarse_world) \<and>
   interval_ans coarse_world = take 2 bench_skews @ drop 2 bench_skews \<and>
   interval_ans coarse_world = take 10 bench_skews @ drop 10 bench_skews \<and>
   10 \<le> locks coarse_world \<and>
   (\<exists>w'. calibrate_device_port exact_arith 100 2 1 1 ''blue'' ready_session bench_world =
            Some (Inr (),
                  ready_session\<lparr>cfg_port_delay :=
                    [(''blue-wr1'', (- (2304896865 / 8388608), 5995884385 / 8388608))]\<rparr>, w') \<and>
          measurements w' = measurements coarse_world + 2 \<and>
          interval_ans w' = drop 2 bench_skews) \<and>
   (\<exists>w'. calibrate_device_port exact_arith 10 2 1 1 ''blue'' ready_session bench_world =
            Some (Inr (),
                  ready_session\<lparr>cfg_port_delay :=
                    [(''blue-wr1'', (- (33554896865 / 8388608), 37245884385 / 8388608))]\<rparr>, w') \<and>
          measurements w' = measurements coarse_world + 10 \<and>
          interval_ans w' = drop 10 bench_skews)"
proof -
  have h1: "1 \<le> devices ready_session" "instr ready_session" "cfg_delta1 ready_session \<noteq> 0"
    by (simp_all add: ready_session_def)
  have h4: "map_of (cfg_fiber_asymmetry ready_session) (port_key ''blue'' 1) = Some 7"
    by (simp add: ready_session_def str_eval)
  have h5: "coarse_stage exact_arith 2 1 1
              (if ''blue'' = ''blue'' then ''AXGE-1254-0531'' else ''AXGE-3454-0531'')
              7 (cfg_delta1 ready_session) bench_world = Some (Inr 220, coarse_world)"
    using coarse_bench by (simp add: ready_session_def)
  have h6: "interval_ans coarse_world = take 2 bench_skews @ drop 2 bench_skews"
    "interval_ans coarse_world = take 10 bench_skews @ drop 10 bench_skews"
    by (simp_all add: coarse_world_def)
  have l: "10 \<le> locks coarse_world" by (simp add: coarse_world_def locks_def)
  have t2: "take 2 bench_skews = [1 / 2147483648, 1 / 34359738368]"
    by (simp add: bench_skews_def)
  have t10: "take 10 bench_skews =
      [1 / 2147483648, 1 / 34359738368, 1 / 2147483648, 1 / 2147483648, 1 / 2147483648,
       1 / 2147483648, 1 / 2147483648, 1 / 2147483648, 1 / 2147483648, 1 / 2147483648]"
    by (simp add: bench_skews_def)
  have a7: "take 2 bench_skews \<noteq> []" "length (take 2 bench_skews) \<le> times"
    "length (take 2 bench_skews) \<le> locks coarse_world"
    using l by (simp_all add: t2 times_def)
  have a10: "\<forall>v \<in> set (10000000000 # map (\<lambda>m. fmul exact_arith m 1000000000000)
               (butlast (take 2 bench_skews))). (100::real) < \<bar>v\<bar>"
    by (simp add: t2 exact_arith_def)
  have a11: "length (take 2 bench_skews) = times \<or>
             \<bar>fmul exact_arith (last (take 2 bench_skews)) 1000000000000\<bar> \<le> 100"
    by (simp add: t2 exact_arith_def)
  have b7: "take 10 bench_skews \<noteq> []" "length (take 10 bench_skews) \<le> times"
    "length (take 10 bench_skews) \<le> locks coarse_world"
    using l by (simp_all add: t10 times_def)
  have b10: "\<forall>v \<in> set (10000000000 # map (\<lambda>m. fmul exact_arith m 1000000000000)
               (butlast (take 10 bench_skews))). (10::real) < \<bar>v\<bar>"
    by (simp add: t10 exact_arith_def)
  have b11: "length (take 10 bench_skews) = times \<or>
             \<bar>fmul exact_arith (last (take 10 bench_skews)) 1000000000000\<bar> \<le> 10"
    by (simp add: t10 times_def)
  have u2: "after_updates exact_arith (220, 220) (take 2 bench_skews) =
      (- (2304896865 / 8388608), 5995884385 / 8388608)"
    by (simp add: t2 after_updates_def delay_update_def exact_arith_def)
  have u10: "after_updates exact_arith (220, 220) (take 10 bench_skews) =
      (- (33554896865 / 8388608), 37245884385 / 8388608)"
    by (simp add: t10 after_updates_def delay_update_def exact_arith_def)
  have n2: "length (take 2 bench_skews) = 2" and n10: "length (take 10 bench_skews) = 10"
    by (simp_all add: bench_skews_def)
  from refinement_loop [OF h1 h4 h5 h6(1) a7 a10 a11]
  have r2: "\<exists>w'. calibrate_device_port exact_arith 100 2 1 1 ''blue'' ready_session bench_world =
            Some (Inr (),
                  ready_session\<lparr>cfg_port_delay :=
                    [(''blue-wr1'', (- (2304896865 / 8388608), 5995884385 / 8388608))]\<rparr>, w') \<and>
          measurements w' = measurements coarse_world + 2 \<and>
          interval_ans w' = drop 2 bench_skews"
    unfolding u2 n2 by (simp add: ready_session_def str_eval)
  from refinement_loop [OF h1 h4 h5 h6(2) b7 b10 b11]
  have r10: "\<exists>w'. calibrate_device_port exact_arith 10 2 1 1 ''blue'' ready_session bench_world =
            Some (Inr (),
                  ready_session\<lparr>cfg_port_delay :=
                    [(''blue-wr1'', (- (33554896865 / 8388608), 37245884385 / 8388608))]\<rparr>, w') \<and>
          measurements w' = measurements coarse_world + 10 \<and>
          interval_ans w' = drop 10 bench_skews"
    unfolding u10 n10 by (simp add: ready_session_def str_eval)
  from h1 h4 h5 h6 l r2 r10 show ?thesis by simp
qed

text \<open>
  C9. Once the coarse stage is done, \<open>mean_skew\<close> holds the start value
  \<open>10000000000\<close>. For a threshold below it, and a device that locks and an instrument
  that answers ten more times (as many as there can be passes), \<open>calibrate_device_port\<close>
  returns normally whatever the instrument reads, has made at least one skew measurement
  and one SFP write more than the coarse stage, and leaves a \<open>port_delay\<close> entry for the
  key. If the first reading is already within the threshold, one lock and one answer
  are enough: the run makes exactly one measurement and one SFP write and stores the
  delays after that one update. For a threshold of \<open>10000000000\<close> or more the loop body
  never runs (the world is the one the coarse stage left) and the final store raises
  \<open>UnboundLocalError\<close> with the session unchanged.
\<close>

theorem sentinel_first_pass:
  assumes "1 \<le> devices s" and "instr s" and "cfg_delta1 s \<noteq> 0"
    and "map_of (cfg_fiber_asymmetry s) (port_key sfp port) = Some beta"
    and "coarse_stage fa n_samples t_samples port
           (if sfp = ''blue'' then ''AXGE-1254-0531'' else ''AXGE-3454-0531'') beta (cfg_delta1 s) w
         = Some (Inr coarse_delays, w1)"
  shows "(err < 10000000000 \<and> times \<le> locks w1 \<and> times \<le> length (interval_ans w1) \<longrightarrow>
           (\<exists>dl w'. calibrate_device_port fa err n_samples t_samples port sfp s w =
                 Some (Inr (),
                       s\<lparr>cfg_port_delay := dict_set (port_key sfp port) dl (cfg_port_delay s)\<rparr>, w') \<and>
               measurements w1 < measurements w' \<and> sfp_writes w1 < sfp_writes w')) \<and>
         (\<forall>m rest. err < 10000000000 \<and> 0 < locks w1 \<and> interval_ans w1 = m # rest \<and>
               \<bar>fmul fa m 1000000000000\<bar> \<le> err \<longrightarrow>
           (\<exists>w'. calibrate_device_port fa err n_samples t_samples port sfp s w =
                 Some (Inr (),
                       s\<lparr>cfg_port_delay :=
                           dict_set (port_key sfp port)
                             (delay_update fa (coarse_delays, coarse_delays) m) (cfg_port_delay s)\<rparr>,
                       w') \<and>
               measurements w' = measurements w1 + 1 \<and> sfp_writes w' = sfp_writes w1 + 1 \<and>
               interval_ans w' = rest)) \<and>
         (10000000000 \<le> err \<longrightarrow>
           calibrate_device_port fa err n_samples t_samples port sfp s w
             = Some (Inl UnboundLocalError, s, w1))"
proof (intro conjI impI allI)
  let ?sn = "if sfp = ''blue'' then ''AXGE-1254-0531'' else ''AXGE-3454-0531''"
  let ?loop = "refine fa err n_samples t_samples ?sn port beta 0 10000000000 coarse_delays coarse_delays None w1"
  have unfold: "calibrate_device_port fa err n_samples t_samples port sfp s w =
      (case ?loop of
         None \<Rightarrow> None
       | Some (i, mean_skew, None, w2) \<Rightarrow> Some (Inl UnboundLocalError, s, w2)
       | Some (i, mean_skew, Some (dtxs, drxs), w2) \<Rightarrow>
           Some (Inr (), s\<lparr>cfg_port_delay := dict_set (port_key sfp port) (dtxs, drxs) (cfg_port_delay s)\<rparr>, w2))"
    using assms by (simp add: calibrate_device_port_def)
  {
    assume a: "err < 10000000000 \<and> times \<le> locks w1 \<and> times \<le> length (interval_ans w1)"
    then have "\<exists>r. ?loop = Some r" by (intro refine_returns) simp_all
    then obtain i v dl w2 where l: "?loop = Some (i, v, dl, w2)"
      by (metis prod_cases4)
    from refine_counts [OF l] a
    have c: "0 < i" "measurements w2 = measurements w1 + i" "sfp_writes w2 = sfp_writes w1 + i" "dl \<noteq> None"
      by (auto simp: times_def)
    then obtain dtxs drxs where dl: "dl = Some (dtxs, drxs)" by (cases dl) auto
    from unfold l dl
    have "calibrate_device_port fa err n_samples t_samples port sfp s w =
        Some (Inr (), s\<lparr>cfg_port_delay := dict_set (port_key sfp port) (dtxs, drxs) (cfg_port_delay s)\<rparr>, w2)"
      by simp
    with c show "\<exists>dl w'. calibrate_device_port fa err n_samples t_samples port sfp s w =
                 Some (Inr (),
                       s\<lparr>cfg_port_delay := dict_set (port_key sfp port) dl (cfg_port_delay s)\<rparr>, w') \<and>
               measurements w1 < measurements w' \<and> sfp_writes w1 < sfp_writes w'"
      by auto
  }
  {
    fix m rest
    assume a: "err < 10000000000 \<and> 0 < locks w1 \<and> interval_ans w1 = m # rest \<and>
               \<bar>fmul fa m 1000000000000\<bar> \<le> err"
    have "\<exists>w'. ?loop =
             Some (0 + length [m], fmul fa (last [m]) 1000000000000,
                   Some (after_updates fa (coarse_delays, coarse_delays) [m]), w') \<and>
           interval_ans w' = rest \<and> measurements w' = measurements w1 + length [m]"
      using a by (intro refine_run) (auto simp: times_def)
    then obtain w' where l: "?loop =
          Some (1, fmul fa m 1000000000000, Some (delay_update fa (coarse_delays, coarse_delays) m), w')"
      and o: "interval_ans w' = rest" "measurements w' = measurements w1 + 1"
      by (auto simp: after_updates_def)
    from refine_counts [OF l] have sw: "sfp_writes w' = sfp_writes w1 + 1" by simp
    obtain dt dr where d: "delay_update fa (coarse_delays, coarse_delays) m = (dt, dr)"
      by (cases "delay_update fa (coarse_delays, coarse_delays) m")
    from unfold l d
    have "calibrate_device_port fa err n_samples t_samples port sfp s w =
        Some (Inr (), s\<lparr>cfg_port_delay := dict_set (port_key sfp port) (dt, dr) (cfg_port_delay s)\<rparr>, w')"
      by simp
    with o sw d show "\<exists>w'. calibrate_device_port fa err n_samples t_samples port sfp s w =
                 Some (Inr (),
                       s\<lparr>cfg_port_delay :=
                           dict_set (port_key sfp port)
                             (delay_update fa (coarse_delays, coarse_delays) m) (cfg_port_delay s)\<rparr>,
                       w') \<and>
               measurements w' = measurements w1 + 1 \<and> sfp_writes w' = sfp_writes w1 + 1 \<and>
               interval_ans w' = rest"
      by auto
  }
  {
    assume "10000000000 \<le> err"
    then have "?loop = Some (0, 10000000000, None, w1)"
      by (intro refine_stop) simp
    with unfold show "calibrate_device_port fa err n_samples t_samples port sfp s w
             = Some (Inl UnboundLocalError, s, w1)" by simp
  }
qed

theorem sentinel_first_pass_witness:
  "1 \<le> devices ready_session \<and> instr ready_session \<and> cfg_delta1 ready_session \<noteq> 0 \<and>
   map_of (cfg_fiber_asymmetry ready_session) (port_key ''blue'' 1) = Some 7 \<and>
   coarse_stage exact_arith 2 1 1 ''AXGE-1254-0531'' 7 (cfg_delta1 ready_session) bench_world
     = Some (Inr 220, coarse_world) \<and>
   times \<le> locks coarse_world \<and> times \<le> length (interval_ans coarse_world) \<and>
   (\<exists>dl w'. calibrate_device_port exact_arith 100 2 1 1 ''blue'' ready_session bench_world =
        Some (Inr (), ready_session\<lparr>cfg_port_delay := [(''blue-wr1'', dl)]\<rparr>, w') \<and>
      measurements coarse_world < measurements w' \<and> sfp_writes coarse_world < sfp_writes w') \<and>
   interval_ans coarse_world = 1 / 2147483648 # drop 1 bench_skews \<and>
   \<bar>fmul exact_arith (1 / 2147483648) 1000000000000\<bar> \<le> 500 \<and>
   (\<exists>w'. calibrate_device_port exact_arith 500 2 1 1 ''blue'' ready_session bench_world =
        Some (Inr (),
              ready_session\<lparr>cfg_port_delay :=
                [(''blue-wr1'', (- (128797265 / 524288), 359483985 / 524288))]\<rparr>, w') \<and>
      measurements w' = measurements coarse_world + 1 \<and>
      sfp_writes w' = sfp_writes coarse_world + 1 \<and> interval_ans w' = drop 1 bench_skews) \<and>
   calibrate_device_port exact_arith 10000000000 2 1 1 ''blue'' ready_session bench_world
     = Some (Inl UnboundLocalError, ready_session, coarse_world)"
proof -
  have h1: "1 \<le> devices ready_session" "instr ready_session" "cfg_delta1 ready_session \<noteq> 0"
    by (simp_all add: ready_session_def)
  have h4: "map_of (cfg_fiber_asymmetry ready_session) (port_key ''blue'' 1) = Some 7"
    by (simp add: ready_session_def str_eval)
  have h5: "coarse_stage exact_arith 2 1 1
              (if ''blue'' = ''blue'' then ''AXGE-1254-0531'' else ''AXGE-3454-0531'')
              7 (cfg_delta1 ready_session) bench_world = Some (Inr 220, coarse_world)"
    using coarse_bench by (simp add: ready_session_def)
  have l: "times \<le> locks coarse_world" "times \<le> length (interval_ans coarse_world)"
    "0 < locks coarse_world"
    by (simp_all add: coarse_world_def locks_def times_def bench_skews_def)
  have i: "interval_ans coarse_world = 1 / 2147483648 # drop 1 bench_skews"
    by (simp add: coarse_world_def bench_skews_def)
  have m: "\<bar>fmul exact_arith (1 / 2147483648) 1000000000000\<bar> \<le> 500"
    by (simp add: exact_arith_def)
  have d: "delay_update exact_arith (220, 220) (1 / 2147483648) =
      (- (128797265 / 524288), 359483985 / 524288)"
    by (simp add: delay_update_def exact_arith_def)
  note a = sentinel_first_pass [OF h1 h4 h5, of 100]
  note b = sentinel_first_pass [OF h1 h4 h5, of 500]
  note c = sentinel_first_pass [OF h1 h4 h5, of 10000000000]
  from a l have ra: "\<exists>dl w'. calibrate_device_port exact_arith 100 2 1 1 ''blue'' ready_session bench_world =
        Some (Inr (), ready_session\<lparr>cfg_port_delay := [(''blue-wr1'', dl)]\<rparr>, w') \<and>
      measurements coarse_world < measurements w' \<and> sfp_writes coarse_world < sfp_writes w'"
    by (simp add: ready_session_def str_eval)
  from b l(3) i m have "\<exists>w'. calibrate_device_port exact_arith 500 2 1 1 ''blue'' ready_session bench_world =
        Some (Inr (),
              ready_session\<lparr>cfg_port_delay :=
                dict_set (port_key ''blue'' 1) (delay_update exact_arith (220, 220) (1 / 2147483648))
                  (cfg_port_delay ready_session)\<rparr>, w') \<and>
      measurements w' = measurements coarse_world + 1 \<and>
      sfp_writes w' = sfp_writes coarse_world + 1 \<and> interval_ans w' = drop 1 bench_skews"
    by simp
  then have rb: "\<exists>w'. calibrate_device_port exact_arith 500 2 1 1 ''blue'' ready_session bench_world =
        Some (Inr (),
              ready_session\<lparr>cfg_port_delay :=
                [(''blue-wr1'', (- (128797265 / 524288), 359483985 / 524288))]\<rparr>, w') \<and>
      measurements w' = measurements coarse_world + 1 \<and>
      sfp_writes w' = sfp_writes coarse_world + 1 \<and> interval_ans w' = drop 1 bench_skews"
    unfolding d by (simp add: ready_session_def str_eval)
  from c have rc: "calibrate_device_port exact_arith 10000000000 2 1 1 ''blue'' ready_session bench_world
     = Some (Inl UnboundLocalError, ready_session, coarse_world)"
    by simp
  from h1 h4 h5 l(1,2) ra i m rb rc show ?thesis by simp
qed

section \<open>The asymmetry coefficient and the validity test of fiber\_asymmetry\<close>

lemma measure_skew_ok:
  assumes "interval_ans w = m # rest" and "0 < locks w"
    and "(if sfp = ''blue'' then - m else m) < micro"
  shows "\<exists>w'. measure_skew n t sfp w = Some (Inr (if sfp = ''blue'' then - m else m), w') \<and>
           interval_ans w' = rest \<and> Suc (locks w') = locks w"
proof -
  from assms(2) obtain w1 where w1: "wait_trackphase 1 w = Some w1"
    using wait_trackphase_locks by blast
  note c1 = wait_trackphase_some [OF w1]
  from assms(1) c1 have "interval_ans w1 = m # rest" by simp
  then obtain w2 where w2: "mean_time_interval n t w1 = Some (m, w2)" and i2: "interval_ans w2 = rest"
    using mean_time_interval_cons by blast
  note c2 = mean_time_interval_some [OF w2]
  from w1 w2 assms(3) have "measure_skew n t sfp w = Some (Inr (if sfp = ''blue'' then - m else m), w2)"
    by (cases "sfp = ''blue''") (simp_all add: measure_skew_def)
  with i2 c1 c2 show ?thesis by simp
qed

lemma measure_fibers_ok:
  assumes "interval_ans w = m1 # m2 # rest" and "2 \<le> locks w"
    and "(if sfp = ''blue'' then - m1 else m1) < micro"
    and "(if sfp = ''blue'' then - m2 else m2) < micro"
  shows "\<exists>w'. measure_fibers n t sfp fibers [] w =
           Some (Inr [if sfp = ''blue'' then - m1 else m1, if sfp = ''blue'' then - m2 else m2], w')"
proof -
  from assms obtain wa where a: "measure_skew n t sfp w = Some (Inr (if sfp = ''blue'' then - m1 else m1), wa)"
    and ia: "interval_ans wa = m2 # rest" and la: "Suc (locks wa) = locks w"
    using measure_skew_ok [of w m1 "m2 # rest" sfp n t] by auto
  from assms la have "0 < locks wa" by simp
  with ia assms(4) obtain wb where b: "measure_skew n t sfp wa = Some (Inr (if sfp = ''blue'' then - m2 else m2), wb)"
    using measure_skew_ok [of wa m2 rest sfp n t] by auto
  from a b show ?thesis by (simp add: fibers_def)
qed

text \<open>
  A divisor that the arithmetic of the run computes as zero makes the derivation raise
  \<open>ZeroDivisionError\<close>, whatever the exact value of the expression is.
\<close>

lemma asymmetry_of_zero_divisor:
  "fsub fa (fmul fa 0.5 delta_2)
     (fsub fa (fmul fa s1 1000000000000) (fmul fa s0 1000000000000)) = 0 \<Longrightarrow>
   asymmetry_of fa sfp delta_2 s0 s1 = Inl ZeroDivisionError"
  by (simp add: asymmetry_of_def Let_def)

text \<open>
  C6. With two devices, an instrument and a measured fiber latency, a device that locks
  for both fibers, and both sign-corrected readings below the validity bound:
  let \<open>skew_f1\<close> and \<open>skew_f2\<close> be the sign-corrected readings converted to picoseconds,
  and let the two divisors of the derivation, \<open>0.5*delta2 - dif\<close> and \<open>alpha + 2\<close> as
  the arithmetic of the run computes them, be different from zero (Python raises
  \<open>ZeroDivisionError\<close> otherwise). Then \<open>fiber_asymmetry\<close> returns normally and stores,
  under the key \<open><sfp>-wr<port>\<close>, the coefficient
  \<open>alpha_n = 2^40 * ((alpha+1)/(alpha+2) - 0.5)\<close> with
  \<open>alpha = 2*dif / (0.5*delta2 - dif)\<close> and \<open>dif = skew_f2 - skew_f1\<close>, every operation
  taken in the arithmetic of the run; for \<open>sfp = violet\<close> it stores the negation of that
  value.
\<close>

theorem asymmetry_coefficient:
  assumes "2 \<le> devices s" and "instr s" and "cfg_delta1 s \<noteq> 0"
    and "interval_ans w = m1 # m2 # rest" and "2 \<le> locks w"
    and "(if sfp = ''blue'' then - m1 else m1) < micro"
    and "(if sfp = ''blue'' then - m2 else m2) < micro"
    and "skew_f1 = fmul fa (if sfp = ''blue'' then - m1 else m1) 1000000000000"
    and "skew_f2 = fmul fa (if sfp = ''blue'' then - m2 else m2) 1000000000000"
    and "fsub fa (fmul fa 0.5 (cfg_delta2 s)) (fsub fa skew_f2 skew_f1) \<noteq> 0"
    and "fadd fa (fdiv fa (fmul fa 2 (fsub fa skew_f2 skew_f1))
                    (fsub fa (fmul fa 0.5 (cfg_delta2 s)) (fsub fa skew_f2 skew_f1))) 2 \<noteq> 0"
  shows "\<exists>w'. fiber_asymmetry fa n_samples t_samples port sfp s w =
           Some (Inr (),
                 s\<lparr>cfg_fiber_asymmetry :=
                     dict_set (port_key sfp port)
                       (if sfp = ''violet'' then - alpha_n_spec fa (cfg_delta2 s) skew_f1 skew_f2
                        else alpha_n_spec fa (cfg_delta2 s) skew_f1 skew_f2)
                       (cfg_fiber_asymmetry s)\<rparr>,
                 w')"
proof -
  let ?c1 = "if sfp = ''blue'' then - m1 else m1" and ?c2 = "if sfp = ''blue'' then - m2 else m2"
  define w7 where "w7 = issue (Set_master 0) (issue (Set_slaveport 1 port) (issue (Load_sfp_config 1)
      (issue (Load_sfp_config 0)
        (issue (Write_sfp_config 0 (if sfp = ''blue'' then ''AXGE-3454-0531'' else ''AXGE-1254-0531'') port None)
          (issue (Write_sfp_config 1 (if sfp = ''blue'' then ''AXGE-1254-0531'' else ''AXGE-3454-0531'') port None)
            (issue (Erase_sfp_config 1) (issue (Erase_sfp_config 0) w)))))))"
  have w7: "interval_ans w7 = m1 # m2 # rest" "2 \<le> locks w7"
    using assms(4,5) by (simp_all add: w7_def issue_counts)
  from measure_fibers_ok [OF w7 assms(6,7)] obtain w8 where
    m: "measure_fibers n_samples t_samples sfp fibers [] w7 = Some (Inr [?c1, ?c2], w8)"
    by blast
  have a: "asymmetry_of fa sfp (cfg_delta2 s) ?c1 ?c2 =
      Inr (if sfp = ''violet'' then - alpha_n_spec fa (cfg_delta2 s) skew_f1 skew_f2
           else alpha_n_spec fa (cfg_delta2 s) skew_f1 skew_f2)"
    using assms(10,11) unfolding assms(8,9)
    by (simp add: asymmetry_of_def alpha_n_spec_def Let_def)
  have "fiber_asymmetry fa n_samples t_samples port sfp s w =
      Some (Inr (),
            s\<lparr>cfg_fiber_asymmetry :=
                dict_set (port_key sfp port)
                  (if sfp = ''violet'' then - alpha_n_spec fa (cfg_delta2 s) skew_f1 skew_f2
                   else alpha_n_spec fa (cfg_delta2 s) skew_f1 skew_f2)
                  (cfg_fiber_asymmetry s)\<rparr>, w8)"
    using assms(1-3) m a unfolding fiber_asymmetry_def Let_def w7_def [symmetric]
    by (simp add: w7_def)
  then show ?thesis by blast
qed

theorem asymmetry_coefficient_witness:
  "2 \<le> devices skew_session \<and> instr skew_session \<and> cfg_delta1 skew_session \<noteq> 0 \<and>
   interval_ans skew_world = [1 / 8589934592, - (3 / 8589934592)] \<and> 2 \<le> locks skew_world \<and>
   - (1 / 8589934592) < micro \<and> 3 / 8589934592 < micro \<and>
   fmul exact_arith (- (1 / 8589934592)) 1000000000000 = - (244140625 / 2097152) \<and>
   fmul exact_arith (3 / 8589934592) 1000000000000 = 732421875 / 2097152 \<and>
   alpha_n_spec exact_arith (244140625 / 131072) (- (244140625 / 2097152)) (732421875 / 2097152)
     = 274877906944 \<and>
   (\<exists>w'. fiber_asymmetry exact_arith 10 5 1 ''blue'' skew_session skew_world =
      Some (Inr (), skew_session\<lparr>cfg_fiber_asymmetry := [(''blue-wr1'', 274877906944)]\<rparr>, w')) \<and>
   (\<exists>w'. fiber_asymmetry exact_arith 10 5 1 ''violet'' skew_session
            (skew_world\<lparr>interval_ans := [- (1 / 8589934592), 3 / 8589934592]\<rparr>) =
      Some (Inr (), skew_session\<lparr>cfg_fiber_asymmetry := [(''violet-wr1'', - 274877906944)]\<rparr>, w'))"
proof -
  let ?v = "skew_world\<lparr>interval_ans := [- (1 / 8589934592), 3 / 8589934592]\<rparr>"
  have h1: "2 \<le> devices skew_session" "instr skew_session" "cfg_delta1 skew_session \<noteq> 0"
    by (simp_all add: skew_session_def)
  have h4: "interval_ans skew_world = 1 / 8589934592 # - (3 / 8589934592) # []"
    "interval_ans ?v = - (1 / 8589934592) # 3 / 8589934592 # []"
    by (simp_all add: skew_world_def)
  have h5: "2 \<le> locks skew_world" "2 \<le> locks ?v" by (simp_all add: skew_world_def locks_def)
  have b6: "(if ''blue'' = ''blue'' then - (1 / 8589934592) else 1 / 8589934592) < micro"
    "(if ''blue'' = ''blue'' then - (- (3 / 8589934592)) else - (3 / 8589934592)) < micro"
    by (simp_all add: micro_def)
  have v6: "(if ''violet'' = ''blue'' then - (- (1 / 8589934592)) else - (1 / 8589934592)) < micro"
    "(if ''violet'' = ''blue'' then - (3 / 8589934592) else 3 / 8589934592) < micro"
    by (simp_all add: micro_def)
  have b8: "- (244140625 / 2097152) =
      fmul exact_arith (if ''blue'' = ''blue'' then - (1 / 8589934592) else 1 / 8589934592) 1000000000000"
    "732421875 / 2097152 =
      fmul exact_arith (if ''blue'' = ''blue'' then - (- (3 / 8589934592)) else - (3 / 8589934592))
        1000000000000"
    by (simp_all add: exact_arith_def)
  have v8: "- (244140625 / 2097152) =
      fmul exact_arith (if ''violet'' = ''blue'' then - (- (1 / 8589934592)) else - (1 / 8589934592))
        1000000000000"
    "732421875 / 2097152 =
      fmul exact_arith (if ''violet'' = ''blue'' then - (3 / 8589934592) else 3 / 8589934592)
        1000000000000"
    by (simp_all add: exact_arith_def)
  have h10: "fsub exact_arith (fmul exact_arith 0.5 (cfg_delta2 skew_session))
               (fsub exact_arith (732421875 / 2097152) (- (244140625 / 2097152))) \<noteq> 0"
    by (simp add: skew_session_def exact_arith_def)
  have h11: "fadd exact_arith
               (fdiv exact_arith
                  (fmul exact_arith 2 (fsub exact_arith (732421875 / 2097152) (- (244140625 / 2097152))))
                  (fsub exact_arith (fmul exact_arith 0.5 (cfg_delta2 skew_session))
                     (fsub exact_arith (732421875 / 2097152) (- (244140625 / 2097152))))) 2 \<noteq> 0"
    by (simp add: skew_session_def exact_arith_def)
  have v: "alpha_n_spec exact_arith (244140625 / 131072) (- (244140625 / 2097152)) (732421875 / 2097152)
             = 274877906944"
    by (simp add: alpha_n_spec_def Let_def exact_arith_def)
  have d: "cfg_delta2 skew_session = 244140625 / 131072" by (simp add: skew_session_def)
  from asymmetry_coefficient [OF h1 h4(1) h5(1) b6 b8 h10 h11, of 10 5 1]
  have rb: "\<exists>w'. fiber_asymmetry exact_arith 10 5 1 ''blue'' skew_session skew_world =
      Some (Inr (), skew_session\<lparr>cfg_fiber_asymmetry := [(''blue-wr1'', 274877906944)]\<rparr>, w')"
    unfolding d v by (simp add: skew_session_def str_eval)
  from asymmetry_coefficient [OF h1 h4(2) h5(2) v6 v8 h10 h11, of 10 5 1]
  have rv: "\<exists>w'. fiber_asymmetry exact_arith 10 5 1 ''violet'' skew_session ?v =
      Some (Inr (), skew_session\<lparr>cfg_fiber_asymmetry := [(''violet-wr1'', - 274877906944)]\<rparr>, w')"
    unfolding d v by (simp add: skew_session_def str_eval)
  have e: "fmul exact_arith (- (1 / 8589934592)) 1000000000000 = - (244140625 / 2097152)"
    "fmul exact_arith (3 / 8589934592) 1000000000000 = 732421875 / 2097152"
    by (simp_all add: exact_arith_def)
  have f: "- (1 / 8589934592) < micro" "3 / 8589934592 < micro" by (simp_all add: micro_def)
  from h1 h4(1) h5(1) f e v rb rv show ?thesis by simp
qed

lemmas run_eval = fiber_asymmetry_def fibers_def measure_skew_def wait_trackphase_def
  mean_time_interval_def issue_def asymmetry_of_def Let_def

text \<open>
  C1. Raw readings of -5 microseconds and -0.5 seconds with a violet SFP, and of +5
  microseconds and +0.5 seconds with a blue SFP (negated before the test of line 474),
  have a magnitude far above \<open>1e-6\<close>, yet \<open>fiber_asymmetry\<close> accepts them and returns
  normally: the test compares the signed value. A reading of one millionth, or of
  exactly the float \<open>1e-6\<close>, with a violet SFP is rejected. (On these readings the
  divisors of the derivation are far from zero, in exact arithmetic as in binary64.)
\<close>

theorem out_of_band_skew_accepted:
  "map_option fst (fiber_asymmetry exact_arith 10 5 1 ''violet'' ready_session miswired_world)
     = Some (Inr ()) \<and>
   map_option fst (fiber_asymmetry exact_arith 10 5 1 ''blue'' ready_session
      (miswired_world\<lparr>interval_ans := [5 / 1000000, 1 / 2]\<rparr>)) = Some (Inr ()) \<and>
   map_option fst (fiber_asymmetry exact_arith 10 5 1 ''violet'' ready_session
      (miswired_world\<lparr>interval_ans := [1 / 1000000, 0]\<rparr>)) = Some (Inl MeasuringError) \<and>
   map_option fst (fiber_asymmetry exact_arith 10 5 1 ''violet'' ready_session
      (miswired_world\<lparr>interval_ans := [micro, 0]\<rparr>)) = Some (Inl MeasuringError)"
  by (simp add: run_eval ready_session_def miswired_world_def str_eval exact_arith_def micro_def)

text \<open>
  In every arithmetic the two readings pass the test of line 474: the run ends
  normally or in the division, never in \<open>MeasuringError\<close>.
\<close>

lemma out_of_band_skew_passes_test:
  "map_option fst (fiber_asymmetry fa 10 5 1 ''violet'' ready_session miswired_world)
     \<in> {Some (Inr ()), Some (Inl ZeroDivisionError)}"
  by (simp add: run_eval ready_session_def miswired_world_def str_eval micro_def)

lemma measure_skew_accepts_negative:
  assumes "wait_trackphase 1 w = Some w1" and "mean_time_interval n t w1 = Some (m, w2)"
    and "sfp \<noteq> ''blue''" and "m < micro"
  shows "measure_skew n t sfp w = Some (Inr m, w2)"
  using assms by (simp add: measure_skew_def)

text \<open>
  C10 (amended). All instances read the one record dictionary of the class: a fiber
  latency stored through instance \<open>i\<close> is what instance \<open>j\<close> reads, and constructing
  another instance resets \<open>delta1\<close> and \<open>delta2\<close> to 0 for the instances that exist.
  Instances on which \<open>remove_wr_devices\<close> has not been called read the one device list of
  the class: a device added through one of them is at the end of the list another one
  reads.
\<close>

theorem class_state_shared:
  assumes "i < length (instances h)" and "j < length (instances h)"
    and "own_devices (instances h ! i) = None" and "own_devices (instances h ! j) = None"
  shows "(\<forall>h'. add_wr_device found name device_params i h = Inr h' \<longrightarrow>
            (\<exists>d. devices_of h' i = devices_of h i @ [d] \<and> devices_of h' j = devices_of h' i)) \<and>
         cfg_delta1 (session_of (store_fiber_latency delta1 delta2 i h) j) = delta1 \<and>
         cfg_delta2 (session_of (store_fiber_latency delta1 delta2 i h) j) = delta2 \<and>
         cfg_delta1 (session_of (snd (construct (store_fiber_latency delta1 delta2 i h))) i) = 0 \<and>
         cfg_delta2 (session_of (snd (construct (store_fiber_latency delta1 delta2 i h))) i) = 0"
  using assms
  by (auto simp: add_wr_device_def devices_of_def session_of_def store_fiber_latency_def
      construct_def split: list.splits if_splits)


theorem class_state_shared_witness:
  "0 < length (instances two_instances) \<and> 1 < length (instances two_instances) \<and>
   own_devices (instances two_instances ! 0) = None \<and>
   own_devices (instances two_instances ! 1) = None \<and>
   add_wr_device ((=) ''spec'') ''spec'' [''eth0'', ''1''] 0 two_instances
     = Inr (two_instances\<lparr>class_devices := [Device ''spec'' ''eth0'' ''1'']\<rparr>) \<and>
   devices_of (two_instances\<lparr>class_devices := [Device ''spec'' ''eth0'' ''1'']\<rparr>) 1
     = [Device ''spec'' ''eth0'' ''1''] \<and>
   cfg_delta1 (session_of (store_fiber_latency 1500 2000 0 two_instances) 1) = 1500 \<and>
   cfg_delta1 (session_of (snd (construct (store_fiber_latency 1500 2000 0 two_instances))) 0) = 0"
proof -
  have h: "0 < length (instances two_instances)" "1 < length (instances two_instances)"
    "own_devices (instances two_instances ! 0) = None"
    "own_devices (instances two_instances ! 1) = None"
    by (simp_all add: two_instances_def construct_def class_body_def store_fiber_latency_def)
  have a: "add_wr_device ((=) ''spec'') ''spec'' [''eth0'', ''1''] 0 two_instances
     = Inr (two_instances\<lparr>class_devices := [Device ''spec'' ''eth0'' ''1'']\<rparr>)"
    by (simp add: add_wr_device_def two_instances_def construct_def class_body_def store_fiber_latency_def)
  from class_state_shared [OF h, of "(=) ''spec''" "''spec''" "[''eth0'', ''1'']" 1500 2000] a h
  show ?thesis
    by (auto simp: devices_of_def two_instances_def construct_def class_body_def store_fiber_latency_def)
qed

text \<open>
  C10 as stated fails once \<open>remove_wr_devices\<close> has run on an instance: the assignment
  of line 141 gives that instance a list of its own, and a device added through it is not
  in the list the other instance reads.
\<close>

theorem device_list_not_shared_after_remove:
  "add_wr_device ((=) ''spec'') ''spec'' [''eth0'', ''1''] 0 (remove_wr_devices 0 two_instances)
     = Inr (two_instances\<lparr>instances :=
              [\<lparr>own_devices = Some [Device ''spec'' ''eth0'' ''1''], own_instr = None, own_show_dbg = None\<rparr>,
               \<lparr>own_devices = None, own_instr = None, own_show_dbg = None\<rparr>]\<rparr>) \<and>
   devices_of (two_instances\<lparr>instances :=
              [\<lparr>own_devices = Some [Device ''spec'' ''eth0'' ''1''], own_instr = None, own_show_dbg = None\<rparr>,
               \<lparr>own_devices = None, own_instr = None, own_show_dbg = None\<rparr>]\<rparr>) 0
     = [Device ''spec'' ''eth0'' ''1''] \<and>
   devices_of (two_instances\<lparr>instances :=
              [\<lparr>own_devices = Some [Device ''spec'' ''eth0'' ''1''], own_instr = None, own_show_dbg = None\<rparr>,
               \<lparr>own_devices = None, own_instr = None, own_show_dbg = None\<rparr>]\<rparr>) 1
     = []"
  by (simp add: add_wr_device_def remove_wr_devices_def devices_of_def two_instances_def
      construct_def class_body_def store_fiber_latency_def)

section \<open>Writing and reading the record file\<close>

lemma split_on_nonempty: "split_on c xs \<noteq> []"
  by (induction xs) (auto split: list.splits)



















































lemma truncated_bounds: "\<bar>truncated x\<bar> \<le> \<bar>x\<bar> \<and> \<bar>x - truncated x\<bar> < 1 \<and> truncated x \<in> \<int>"
  by (auto simp: truncated_def py_int_def) linarith+




lemma newline_token_skipped:
  "asymmetry_tokens pf ([newline] # toks) flag s = asymmetry_tokens pf toks flag s"
  "delay_tokens pf ([newline] # toks) flag s = delay_tokens pf toks flag s"
  by simp_all












lemmas read_eval = read_config_def read_line_def latency_line_def float_dec_def unsigned_dec_def
  digit_val_def Let_def

text \<open>
  C3. A session that holds \<open>violet-wr2\<close> in both mappings reads a well-formed record
  file that holds only \<open>blue-wr1\<close>: the load succeeds and \<open>violet-wr2\<close> is still in
  both mappings, beside the entries of the file. The reader assigns key by key into
  \<^verbatim>\<open>self.cfg_dict\<close> and never empties a mapping.
\<close>

theorem stale_keys_survive_load:
  "read_config float_dec record_text
     (measured_session\<lparr>cfg_fiber_asymmetry := [(''violet-wr2'', 9)],
        cfg_port_delay := [(''violet-wr2'', (1, 2))]\<rparr>) =
   (Inr (),
    measured_session\<lparr>cfg_delta1 := 6173 / 5, cfg_delta2 := 2000,
      cfg_fiber_asymmetry := [(''violet-wr2'', 9), (''blue-wr1'', 5)],
      cfg_port_delay := [(''violet-wr2'', (1, 2)), (''blue-wr1'', (10, 20))]\<rparr>)"
  by (simp add: read_eval record_text_def measured_session_def)




lemma dict_set_keys: "fst ` set (dict_set k v d) = insert k (fst ` set d)"
  by (induction d) auto

lemma asymmetry_tokens_keeps_keys:
  "asymmetry_tokens pf toks flag s = Inl (e, s') \<or> asymmetry_tokens pf toks flag s = Inr (fl, s') \<Longrightarrow>
   fst ` set (cfg_fiber_asymmetry s) \<subseteq> fst ` set (cfg_fiber_asymmetry s') \<and>
   cfg_port_delay s' = cfg_port_delay s"
proof (induction toks arbitrary: flag s)
  case Nil
  then show ?case by simp
next
  case (Cons i toks)
  show ?case
  proof (cases "i = [newline]")
    case True
    with Cons show ?thesis by simp
  next
    case False
    show ?thesis
    proof (cases "s' = s")
      case True
      then show ?thesis by simp
    next
      case ne: False
      with False Cons.prems obtain k v x where
        "asymmetry_tokens pf toks (if last v = newline then 0 else flag)
           (s\<lparr>cfg_fiber_asymmetry := dict_set k x (cfg_fiber_asymmetry s)\<rparr>) = Inl (e, s') \<or>
         asymmetry_tokens pf toks (if last v = newline then 0 else flag)
           (s\<lparr>cfg_fiber_asymmetry := dict_set k x (cfg_fiber_asymmetry s)\<rparr>) = Inr (fl, s')"
        by (auto simp: Let_def split: list.splits option.splits if_splits)
      from Cons.IH [OF this] show ?thesis by (auto simp: dict_set_keys)
    qed
  qed
qed

lemma delay_tokens_keeps_keys:
  "delay_tokens pf toks flag s = Inl (e, s') \<or> delay_tokens pf toks flag s = Inr (fl, s') \<Longrightarrow>
   fst ` set (cfg_port_delay s) \<subseteq> fst ` set (cfg_port_delay s') \<and>
   cfg_fiber_asymmetry s' = cfg_fiber_asymmetry s"
proof (induction toks arbitrary: flag s)
  case Nil
  then show ?case by simp
next
  case (Cons i toks)
  show ?case
  proof (cases "i = [newline]")
    case True
    with Cons show ?thesis by simp
  next
    case False
    show ?thesis
    proof (cases "s' = s")
      case True
      then show ?thesis by simp
    next
      case ne: False
      with False Cons.prems obtain k x fl0 where
        "delay_tokens pf toks fl0 (s\<lparr>cfg_port_delay := dict_set k x (cfg_port_delay s)\<rparr>) = Inl (e, s') \<or>
         delay_tokens pf toks fl0 (s\<lparr>cfg_port_delay := dict_set k x (cfg_port_delay s)\<rparr>) = Inr (fl, s')"
        by (auto simp: Let_def split: list.splits option.splits if_splits)
      from Cons.IH [OF this] show ?thesis by (auto simp: dict_set_keys)
    qed
  qed
qed


end
